theory Spec2Isabelle
  imports Complex_Main "HOL-Library.Log_Nat"
begin

section \<open>Data model\<close>

text \<open>
  The quoter is a Python script. Python ints are \<open>int\<close> and a naive \<open>datetime\<close> is
  its number of microseconds on the proleptic Gregorian time line. The prices the quote
  manager computes are IEEE 754 doubles, rounded after every operation as Python rounds
  them (section ``Python floats''); the other floats of the script (time to expiry, the
  results of the pricing module, the hedge sizes) are kept as the exact reals they stand for.
\<close>

type_synonym datetime = int

text \<open>\<open>datetime.timedelta\<close>: Python keeps the normalised triple.\<close>

record timedelta =
  days :: int
  seconds :: int
  microseconds :: int

text \<open>\<open>optibook.common_types.OptionKind\<close>, plus any other value a caller may pass.\<close>

datatype py_kind = CALL | PUT | OtherKind string

datatype error =
    KeyError string
  | IndexError
  | AttributeError string
  | ZeroDivisionError
  | UnboundLocalError string
  | NameError string
  | OverflowError
  | ValueError
  | UnexpectedOptionKind py_kind

section \<open>Python floats\<close>

text \<open>
  A Python float is an IEEE 754 binary64 value: a finite number, an infinity or a NaN. The
  sign of zero is not kept (no statement of the script depends on it).
\<close>

datatype pyfloat = Finite real | PosInf | NegInf | NaN

text \<open>Two to an integer power.\<close>

definition two_to :: "int \<Rightarrow> real" where
  "two_to k = (if 0 \<le> k then 2 ^ nat k else 1 / 2 ^ nat (- k))"

text \<open>
  The exponent of the binade of a non-zero real, \<open>floor (log2 |y|)\<close>, held at -1022 for
  the subnormal range.
\<close>

definition double_exponent :: "real \<Rightarrow> int" where
  "double_exponent y =
     max (if 1 \<le> \<bar>y\<bar> then bitlen \<lfloor>\<bar>y\<bar>\<rfloor> - 1 else - bitlen (\<lceil>1 / \<bar>y\<bar>\<rceil> - 1)) (- 1022)"

definition round_half_even :: "real \<Rightarrow> int" where
  "round_half_even z =
     (if z - of_int \<lfloor>z\<rfloor> < 1 / 2 then \<lfloor>z\<rfloor>
      else if 1 / 2 < z - of_int \<lfloor>z\<rfloor> then \<lfloor>z\<rfloor> + 1
      else if even \<lfloor>z\<rfloor> then \<lfloor>z\<rfloor> else \<lfloor>z\<rfloor> + 1)"

text \<open>
  Rounding an exact result to the nearest double, ties to even: a 53-bit significand in the
  binade of the result, and an infinity when the rounded value leaves the range.
\<close>

definition to_double :: "real \<Rightarrow> pyfloat" where
  "to_double y =
     (if y = 0 then Finite 0
      else let ulp = two_to (double_exponent y - 52);
               v = of_int (round_half_even (y / ulp)) * ulp
           in if 2 ^ 1024 \<le> v then PosInf
              else if v \<le> - (2 ^ 1024) then NegInf
              else Finite v)"

text \<open>\<open>a / b\<close> on floats; Python raises on a zero divisor.\<close>

definition float_truediv :: "pyfloat \<Rightarrow> pyfloat \<Rightarrow> error + pyfloat" where
  "float_truediv a b =
     (case b of
        Finite y \<Rightarrow>
          (if y = 0 then Inl ZeroDivisionError
           else (case a of
                   Finite x \<Rightarrow> Inr (to_double (x / y))
                 | PosInf \<Rightarrow> Inr (if 0 < y then PosInf else NegInf)
                 | NegInf \<Rightarrow> Inr (if 0 < y then NegInf else PosInf)
                 | NaN \<Rightarrow> Inr NaN))
      | PosInf \<Rightarrow> (case a of Finite x \<Rightarrow> Inr (Finite 0) | _ \<Rightarrow> Inr NaN)
      | NegInf \<Rightarrow> (case a of Finite x \<Rightarrow> Inr (Finite 0) | _ \<Rightarrow> Inr NaN)
      | NaN \<Rightarrow> Inr NaN)"

text \<open>\<open>a * b\<close> on floats.\<close>

definition float_mul :: "pyfloat \<Rightarrow> pyfloat \<Rightarrow> pyfloat" where
  "float_mul a b =
     (case a of
        Finite x \<Rightarrow>
          (case b of
             Finite y \<Rightarrow> to_double (x * y)
           | PosInf \<Rightarrow> (if x = 0 then NaN else if 0 < x then PosInf else NegInf)
           | NegInf \<Rightarrow> (if x = 0 then NaN else if 0 < x then NegInf else PosInf)
           | NaN \<Rightarrow> NaN)
      | PosInf \<Rightarrow>
          (case b of
             Finite y \<Rightarrow> (if y = 0 then NaN else if 0 < y then PosInf else NegInf)
           | PosInf \<Rightarrow> PosInf
           | NegInf \<Rightarrow> NegInf
           | NaN \<Rightarrow> NaN)
      | NegInf \<Rightarrow>
          (case b of
             Finite y \<Rightarrow> (if y = 0 then NaN else if 0 < y then NegInf else PosInf)
           | PosInf \<Rightarrow> NegInf
           | NegInf \<Rightarrow> PosInf
           | NaN \<Rightarrow> NaN)
      | NaN \<Rightarrow> NaN)"

text \<open>\<open>x - y\<close> and \<open>x + y\<close> on two finite floats.\<close>

definition float_sub :: "real \<Rightarrow> real \<Rightarrow> pyfloat" where
  "float_sub x y = to_double (x - y)"

definition float_add :: "real \<Rightarrow> real \<Rightarrow> pyfloat" where
  "float_add x y = to_double (x + y)"

text \<open>
  \<open>math.floor\<close> and \<open>math.ceil\<close> return an int and raise on an infinity or a NaN; an
  int that meets a float in a product is converted to a float first.
\<close>

definition py_floor :: "pyfloat \<Rightarrow> error + int" where
  "py_floor a =
     (case a of Finite x \<Rightarrow> Inr \<lfloor>x\<rfloor> | NaN \<Rightarrow> Inl ValueError | _ \<Rightarrow> Inl OverflowError)"

definition py_ceil :: "pyfloat \<Rightarrow> error + int" where
  "py_ceil a =
     (case a of Finite x \<Rightarrow> Inr \<lceil>x\<rceil> | NaN \<Rightarrow> Inl ValueError | _ \<Rightarrow> Inl OverflowError)"

definition float_of_int :: "int \<Rightarrow> error + pyfloat" where
  "float_of_int n =
     (case to_double (of_int n) of Finite v \<Rightarrow> Inr (Finite v) | _ \<Rightarrow> Inl OverflowError)"

text \<open>The literal \<open>0.10\<close>: the double nearest to one tenth.\<close>

definition double_0_10 :: real where
  "double_0_10 = 3602879701896397 / 36028797018963968"

section \<open>Tick rounding (options\_quoter.py, lines 19--30)\<close>

text \<open>\<open>floor(price / tick_size) * tick_size\<close>\<close>

definition round_down_to_tick :: "pyfloat \<Rightarrow> pyfloat \<Rightarrow> error + pyfloat" where
  "round_down_to_tick price tick_size =
     (case float_truediv price tick_size of
        Inl e \<Rightarrow> Inl e
      | Inr ratio \<Rightarrow>
          (case py_floor ratio of
             Inl e \<Rightarrow> Inl e
           | Inr n \<Rightarrow>
               (case float_of_int n of
                  Inl e \<Rightarrow> Inl e
                | Inr nf \<Rightarrow> Inr (float_mul nf tick_size))))"

text \<open>\<open>ceil(price / tick_size) * tick_size\<close>\<close>

definition round_up_to_tick :: "pyfloat \<Rightarrow> pyfloat \<Rightarrow> error + pyfloat" where
  "round_up_to_tick price tick_size =
     (case float_truediv price tick_size of
        Inl e \<Rightarrow> Inl e
      | Inr ratio \<Rightarrow>
          (case py_ceil ratio of
             Inl e \<Rightarrow> Inl e
           | Inr n \<Rightarrow>
               (case float_of_int n of
                  Inl e \<Rightarrow> Inl e
                | Inr nf \<Rightarrow> Inr (float_mul nf tick_size))))"

section \<open>Time to expiry (libs.py)\<close>

definition timedelta_of_microseconds :: "int \<Rightarrow> timedelta" where
  "timedelta_of_microseconds us =
     \<lparr>days = us div 86400000000,
      seconds = (us mod 86400000000) div 1000000,
      microseconds = us mod 1000000\<rparr>"

text \<open>\<open>expiry_date - current_time\<close> on two datetimes.\<close>

definition datetime_sub :: "datetime \<Rightarrow> datetime \<Rightarrow> timedelta" where
  "datetime_sub a b = timedelta_of_microseconds (a - b)"

definition to_microseconds :: "timedelta \<Rightarrow> int" where
  "to_microseconds td = (days td * 86400 + seconds td) * 1000000 + microseconds td"

text \<open>\<open>dt.timedelta(days=1)\<close>\<close>

definition timedelta_one_day :: timedelta where
  "timedelta_one_day = \<lparr>days = 1, seconds = 0, microseconds = 0\<rparr>"

text \<open>\<open>timedelta / timedelta\<close> is the true quotient of the two microsecond counts.\<close>

definition timedelta_truediv :: "timedelta \<Rightarrow> timedelta \<Rightarrow> error + real" where
  "timedelta_truediv a b =
     (if to_microseconds b = 0 then Inl ZeroDivisionError
      else Inr (real_of_int (to_microseconds a) / real_of_int (to_microseconds b)))"

definition calculate_time_to_date :: "datetime \<Rightarrow> datetime \<Rightarrow> error + real" where
  "calculate_time_to_date expiry_date current_time =
     (case timedelta_truediv (datetime_sub expiry_date current_time) timedelta_one_day of
        Inl e \<Rightarrow> Inl e
      | Inr in_days \<Rightarrow> Inr (in_days / 365))"

section \<open>The venue and the world the script runs in\<close>

text \<open>
  Values interpolated into a printed f-string; a printed line is kept as the f-string's
  source text together with the values of its fields.
\<close>

datatype pyval = VInt int | VFloat real | VDouble pyfloat | VStr string | VDatetime datetime

type_synonym log_line = "string \<times> pyval list"

text \<open>An order volume is whatever number the script passes: an int or a float.\<close>

datatype pynum = PyInt int | PyFloat real

text \<open>An option of the chain (\<open>option.expiry\<close>, \<open>option.strike\<close>, \<open>option.option_kind\<close>).\<close>

record instrument =
  expiry :: datetime
  strike :: real
  option_kind :: py_kind

text \<open>A level of the price book (\<open>.price\<close>, \<open>.volume\<close>) and the book itself.\<close>

record price_volume =
  level_price :: real
  level_volume :: int

record price_book =
  bids :: "price_volume list"
  asks :: "price_volume list"

text \<open>A trade reported by \<open>poll_new_trades\<close> and an order of \<open>get_outstanding_orders\<close>.\<close>

record trade =
  trade_volume :: int
  trade_price :: real
  trade_side :: string

record order_status =
  order_side :: string
  order_volume :: int
  order_price :: real

text \<open>
  The calls that change the venue:
  \<open>insert_order(instrument_id, price, volume, side, order_type)\<close> and
  \<open>delete_order(instrument_id, order_id)\<close>.
\<close>

datatype venue_call =
    InsertOrder string pyfloat pynum string string
  | DeleteOrder string int

text \<open>
  What the venue answers to the reading calls. \<open>get_last_price_book\<close> may answer
  \<open>None\<close>; dictionaries are maps, and the option chain and the outstanding orders are
  association lists because the script iterates over them in order.
\<close>

record market =
  venue_positions :: "string \<rightharpoonup> int"
  venue_books :: "string \<rightharpoonup> price_book"
  venue_outstanding :: "string \<Rightarrow> (int \<times> order_status) list"
  venue_new_trades :: "string \<Rightarrow> trade list"

text \<open>
  The world: the venue's data, the venue's own reaction to an order or a cancellation
  (matching and fills are the venue's business, so the reaction is a parameter), the calls
  made so far, the lines printed so far, the wall clock (read by \<open>datetime.now()\<close>,
  advanced by \<open>time.sleep\<close>), and the script's global \<open>theoretical_value\<close>, unbound
  until the trade loop first assigns it.
\<close>

record world =
  market :: market
  react :: "venue_call \<Rightarrow> market \<Rightarrow> market"
  calls :: "venue_call list"
  out :: "log_line list"
  clock :: datetime
  g_theoretical_value :: "real option"

text \<open>
  Module \<open>black_scholes\<close> is imported by the script and is not part of the sources at
  hand: its functions are parameters, each taking \<open>S K T r sigma\<close>.
\<close>

record black_scholes =
  call_value :: "real \<Rightarrow> real \<Rightarrow> real \<Rightarrow> real \<Rightarrow> real \<Rightarrow> real"
  put_value :: "real \<Rightarrow> real \<Rightarrow> real \<Rightarrow> real \<Rightarrow> real \<Rightarrow> real"
  call_delta :: "real \<Rightarrow> real \<Rightarrow> real \<Rightarrow> real \<Rightarrow> real \<Rightarrow> real"
  put_delta :: "real \<Rightarrow> real \<Rightarrow> real \<Rightarrow> real \<Rightarrow> real \<Rightarrow> real"
  call_vega :: "real \<Rightarrow> real \<Rightarrow> real \<Rightarrow> real \<Rightarrow> real \<Rightarrow> real"
  gamma :: "real \<Rightarrow> real \<Rightarrow> real \<Rightarrow> real \<Rightarrow> real \<Rightarrow> real"

section \<open>Statements with effects\<close>

text \<open>
  A statement runs in a world and either raises (\<open>Inl\<close>) or yields a value, leaving the
  world as it was at that point: what was printed and sent before an exception stays.
\<close>

type_synonym 'a action = "world \<Rightarrow> (error + 'a) \<times> world"

definition ret :: "'a \<Rightarrow> 'a action" where
  "ret x w = (Inr x, w)"

definition raise :: "error \<Rightarrow> 'a action" where
  "raise e w = (Inl e, w)"

definition and_then :: "'a action \<Rightarrow> ('a \<Rightarrow> 'b action) \<Rightarrow> 'b action" where
  "and_then m f w = (case m w of (Inl e, w') \<Rightarrow> (Inl e, w') | (Inr x, w') \<Rightarrow> f x w')"

definition lift :: "error + 'a \<Rightarrow> 'a action" where
  "lift r w = (r, w)"

definition py_print :: "string \<Rightarrow> pyval list \<Rightarrow> unit action" where
  "py_print template vals w = (Inr (), w\<lparr>out := out w @ [(template, vals)]\<rparr>)"

text \<open>\<open>d[k]\<close> on a dictionary.\<close>

definition getitem :: "(string \<rightharpoonup> 'a) \<Rightarrow> string \<Rightarrow> 'a action" where
  "getitem d k = (case d k of None \<Rightarrow> raise (KeyError k) | Some v \<Rightarrow> ret v)"

definition send :: "venue_call \<Rightarrow> unit action" where
  "send c w = (Inr (), w\<lparr>market := react w c (market w), calls := calls w @ [c]\<rparr>)"

definition insert_order :: "string \<Rightarrow> pyfloat \<Rightarrow> pynum \<Rightarrow> string \<Rightarrow> string \<Rightarrow> unit action" where
  "insert_order instrument_id price volume side order_type =
     send (InsertOrder instrument_id price volume side order_type)"

definition delete_order :: "string \<Rightarrow> int \<Rightarrow> unit action" where
  "delete_order instrument_id order_id = send (DeleteOrder instrument_id order_id)"

definition get_positions :: "(string \<rightharpoonup> int) action" where
  "get_positions w = (Inr (venue_positions (market w)), w)"

definition get_last_price_book :: "string \<Rightarrow> price_book option action" where
  "get_last_price_book instrument_id w = (Inr (venue_books (market w) instrument_id), w)"

definition get_outstanding_orders :: "string \<Rightarrow> (int \<times> order_status) list action" where
  "get_outstanding_orders instrument_id w = (Inr (venue_outstanding (market w) instrument_id), w)"

text \<open>Each trade is delivered once: polling empties the instrument's list.\<close>

definition poll_new_trades :: "string \<Rightarrow> trade list action" where
  "poll_new_trades instrument_id w =
     (Inr (venue_new_trades (market w) instrument_id),
      w\<lparr>market := (market w)\<lparr>venue_new_trades := (venue_new_trades (market w))(instrument_id := [])\<rparr>\<rparr>)"

definition datetime_now :: "datetime action" where
  "datetime_now w = (Inr (clock w), w)"

text \<open>\<open>time.sleep(secs)\<close>: the clock moves on by that many seconds.\<close>

definition time_sleep :: "real \<Rightarrow> unit action" where
  "time_sleep secs w = (Inr (), w\<lparr>clock := clock w + \<lfloor>secs * 1000000\<rfloor>\<rparr>)"

text \<open>\<open>int(x)\<close> on a float truncates towards zero.\<close>

definition py_int :: "real \<Rightarrow> int" where
  "py_int x = (if 0 \<le> x then \<lfloor>x\<rfloor> else \<lceil>x\<rceil>)"

text \<open>\<open>book.bids[0].price\<close> on what \<open>get_last_price_book\<close> answered.\<close>

definition first_price :: "price_volume list \<Rightarrow> real action" where
  "first_price levels = (case levels of [] \<Rightarrow> raise IndexError | l # _ \<Rightarrow> ret (level_price l))"

definition book_bids :: "price_book option \<Rightarrow> price_volume list action" where
  "book_bids order_book =
     (case order_book of None \<Rightarrow> raise (AttributeError ''bids'') | Some b \<Rightarrow> ret (bids b))"

definition book_asks :: "price_book option \<Rightarrow> price_volume list action" where
  "book_asks order_book =
     (case order_book of None \<Rightarrow> raise (AttributeError ''asks'') | Some b \<Rightarrow> ret (asks b))"

text \<open>
  The variable \<open>option\<close> of a \<open>for option_id, option in options.items()\<close> loop, read
  after the loop: the last item, or unbound when the loop body never ran.
\<close>

definition loop_variable_option :: "(string \<times> instrument) list \<Rightarrow> instrument action" where
  "loop_variable_option options =
     (if options = [] then raise (UnboundLocalError ''option'') else ret (snd (last options)))"

text \<open>libs.py, \<open>calculate_current_time_to_date\<close>.\<close>

definition calculate_current_time_to_date :: "datetime \<Rightarrow> real action" where
  "calculate_current_time_to_date expiry_date =
     and_then datetime_now (\<lambda>now. lift (calculate_time_to_date expiry_date now))"

section \<open>Pricing helpers and the midpoint (options\_quoter.py, lines 33--89)\<close>

definition get_midpoint_value :: "string \<Rightarrow> real option action" where
  "get_midpoint_value instrument_id =
     and_then (get_last_price_book instrument_id) (\<lambda>order_book.
       if \<not> (order_book \<noteq> None \<and> bids (the order_book) \<noteq> [] \<and> asks (the order_book) \<noteq> [])
       then ret None
       else ret (Some ((level_price (hd (bids (the order_book)))
                        + level_price (hd (asks (the order_book)))) / 2)))"

text \<open>
  With a kind that is neither CALL nor PUT no branch assigns \<open>option_value\<close>, and the
  \<open>return\<close> reads an unbound local.
\<close>

definition calculate_theoretical_option_value ::
  "black_scholes \<Rightarrow> datetime \<Rightarrow> real \<Rightarrow> py_kind \<Rightarrow> real \<Rightarrow> real \<Rightarrow> real \<Rightarrow> real action" where
  "calculate_theoretical_option_value bs expiry' strike' kind stock_value interest_rate volatility =
     and_then (calculate_current_time_to_date expiry') (\<lambda>time_to_expiry.
       if kind = CALL
       then ret (call_value bs stock_value strike' time_to_expiry interest_rate volatility)
       else if kind = PUT
       then ret (put_value bs stock_value strike' time_to_expiry interest_rate volatility)
       else raise (UnboundLocalError ''option_value''))"

definition calculate_option_delta ::
  "black_scholes \<Rightarrow> datetime \<Rightarrow> real \<Rightarrow> py_kind \<Rightarrow> real \<Rightarrow> real \<Rightarrow> real \<Rightarrow> real action" where
  "calculate_option_delta bs expiry_date strike' kind stock_value interest_rate volatility =
     and_then (calculate_current_time_to_date expiry_date) (\<lambda>time_to_expiry.
       if kind = CALL
       then ret (call_delta bs stock_value strike' time_to_expiry interest_rate volatility)
       else if kind = PUT
       then ret (put_delta bs stock_value strike' time_to_expiry interest_rate volatility)
       else raise (UnexpectedOptionKind kind))"

section \<open>The quote manager (options\_quoter.py, lines 92--151)\<close>

fun print_trades :: "string \<Rightarrow> trade list \<Rightarrow> unit action" where
  "print_trades option_id [] = ret ()"
| "print_trades option_id (t # trades) =
     and_then (py_print ''- Last period, traded {trade.volume} lots in {option_id} at price {trade.price:.2f}, side {trade.side}.''
                 [VInt (trade_volume t), VStr option_id, VFloat (trade_price t), VStr (trade_side t)]) (\<lambda>_.
     print_trades option_id trades)"

fun delete_orders :: "string \<Rightarrow> (int \<times> order_status) list \<Rightarrow> unit action" where
  "delete_orders option_id [] = ret ()"
| "delete_orders option_id ((order_id, order) # orders) =
     and_then (py_print ''- Deleting old {order.side} order in {option_id} for {order.volume} @ {order.price:8.2f}.''
                 [VStr (order_side order), VStr option_id, VInt (order_volume order),
                  VFloat (order_price order)]) (\<lambda>_.
     and_then (delete_order option_id order_id) (\<lambda>_.
     delete_orders option_id orders))"

text \<open>Lines 109--118: report new trades, then pull every outstanding order.\<close>

definition pull_old_orders :: "string \<Rightarrow> unit action" where
  "pull_old_orders option_id =
     and_then (poll_new_trades option_id) (\<lambda>trades.
     and_then (print_trades option_id trades) (\<lambda>_.
     and_then (get_outstanding_orders option_id) (\<lambda>orders.
     delete_orders option_id orders)))"

definition update_quotes ::
  "string \<Rightarrow> real \<Rightarrow> real \<Rightarrow> int \<Rightarrow> int \<Rightarrow> real \<Rightarrow> unit action" where
  "update_quotes option_id theoretical_price credit volume position_limit tick_size =
     and_then (pull_old_orders option_id) (\<lambda>_.
     and_then (lift (round_down_to_tick (float_sub theoretical_price credit) (Finite tick_size)))
       (\<lambda>bid_price.
     and_then (lift (round_up_to_tick (float_add theoretical_price credit) (Finite tick_size)))
       (\<lambda>ask_price.
     and_then get_positions (\<lambda>positions.
     and_then (getitem positions option_id) (\<lambda>position.
     let max_volume_to_buy = position_limit - position;
         max_volume_to_sell = position_limit + position;
         bid_volume = min volume max_volume_to_buy;
         ask_volume = min volume max_volume_to_sell
     in
     and_then
       (if bid_volume > 0
        then and_then (py_print ''- Inserting bid limit order in {option_id} for {bid_volume} @ {bid_price:8.2f}.''
                         [VStr option_id, VInt bid_volume, VDouble bid_price]) (\<lambda>_.
             insert_order option_id bid_price (PyInt bid_volume) ''bid'' ''limit'')
        else ret ()) (\<lambda>_.
       if ask_volume > 0
       then and_then (py_print ''- Inserting ask limit order in {option_id} for {ask_volume} @ {ask_price:8.2f}.''
                        [VStr option_id, VInt ask_volume, VDouble ask_price]) (\<lambda>_.
            insert_order option_id ask_price (PyInt ask_volume) ''ask'' ''limit'')
       else ret ()))))))"

section \<open>The delta hedge (options\_quoter.py, lines 154--228)\<close>

text \<open>The aggregation loop of lines 173--181, with the running total as accumulator.\<close>

fun delta_loop ::
  "black_scholes \<Rightarrow> (string \<rightharpoonup> int) \<Rightarrow> real \<Rightarrow> (string \<times> instrument) list \<Rightarrow> real \<Rightarrow> real action" where
  "delta_loop bs positions stock_value [] Total_aggregate_delta_position =
     ret Total_aggregate_delta_position"
| "delta_loop bs positions stock_value ((option_id, option) # options) Total_aggregate_delta_position =
     and_then (getitem positions option_id) (\<lambda>position.
     and_then (py_print ''- The current position in option {option_id} is {position}.''
                 [VStr option_id, VInt position]) (\<lambda>_.
     and_then (calculate_option_delta bs (expiry option) (strike option) (option_kind option)
                 stock_value 0.03 3.0) (\<lambda>BS_delta.
     and_then (py_print ''- The current delta in option {option_id} is {BS_delta}.''
                 [VStr option_id, VFloat BS_delta]) (\<lambda>_.
     let Delta_position = BS_delta * real_of_int position in
     and_then (py_print ''- The current delta position in option {option_id} is {Delta_position}.''
                 [VStr option_id, VFloat Delta_position]) (\<lambda>_.
     let Total = Total_aggregate_delta_position + Delta_position in
     and_then (py_print ''- The current total aggregate delta position is {Total_aggregate_delta_position}.''
                 [VFloat Total]) (\<lambda>_.
     delta_loop bs positions stock_value options Total))))))"

definition hedge_delta_position ::
  "black_scholes \<Rightarrow> string \<Rightarrow> (string \<times> instrument) list \<Rightarrow> real \<Rightarrow> unit action" where
  "hedge_delta_position bs stock_id options stock_value =
     and_then get_positions (\<lambda>positions.
     and_then (getitem positions stock_id) (\<lambda>stock_delta.
     and_then (delta_loop bs positions stock_value options (real_of_int stock_delta))
       (\<lambda>Total_aggregate_delta_position.
     and_then (getitem positions stock_id) (\<lambda>stock_position.
     and_then (py_print ''- The current position in the stock {stock_id} is {stock_position}.''
                 [VStr stock_id, VInt stock_position]) (\<lambda>_.
     and_then (getitem positions stock_id) (\<lambda>p.
     and_then (loop_variable_option options) (\<lambda>option.
     and_then (calculate_option_delta bs (expiry option) (strike option) (option_kind option)
                 stock_value 0.03 3.0) (\<lambda>last_delta.
     let number_of_stocks = -1 * real_of_int p * last_delta in
     and_then (get_last_price_book stock_id) (\<lambda>stock_order_book.
     and_then (book_bids stock_order_book) (\<lambda>the_bids.
     and_then (first_price the_bids) (\<lambda>best_bid_price.
     and_then (book_asks stock_order_book) (\<lambda>the_asks.
     and_then (first_price the_asks) (\<lambda>best_ask_price.
     if Total_aggregate_delta_position < 0
     then
       and_then (getitem positions stock_id) (\<lambda>q.
       let n_o_s = (if 1 \<le> \<bar>real_of_int q\<bar> - number_of_stocks
                       \<and> \<bar>real_of_int q\<bar> - number_of_stocks \<le> 100
                    then number_of_stocks else 0) in
       and_then (insert_order stock_id (Finite best_ask_price) (PyInt (-1 * py_int n_o_s)) ''bid'' ''ioc'') (\<lambda>_.
       py_print ''- Delta hedge implemented.'' []))
     else if Total_aggregate_delta_position > 0
     then
       and_then (getitem positions stock_id) (\<lambda>q.
       let n_o_s = (if 1 \<le> real_of_int q + number_of_stocks
                       \<and> real_of_int q + number_of_stocks \<le> 100
                    then number_of_stocks else 0) in
       and_then (insert_order stock_id (Finite best_bid_price) (PyInt (-1 * py_int n_o_s)) ''ask'' ''ioc'') (\<lambda>_.
       py_print ''- Delta hedge implemented.'' []))
     else py_print ''- Delta is zero.'' [])))))))))))))"

section \<open>The gamma hedge and the vega stage (options\_quoter.py, lines 237--333)\<close>

text \<open>Reading the module-level \<open>theoretical_value\<close> inside a function.\<close>

definition read_theoretical_value :: "real action" where
  "read_theoretical_value w =
     (case g_theoretical_value w of
        None \<Rightarrow> (Inl (NameError ''theoretical_value''), w)
      | Some v \<Rightarrow> (Inr v, w))"

definition write_theoretical_value :: "real \<Rightarrow> unit action" where
  "write_theoretical_value v w = (Inr (), w\<lparr>g_theoretical_value := Some v\<rparr>)"

text \<open>The aggregation loop of lines 259--266.\<close>

fun gamma_loop ::
  "black_scholes \<Rightarrow> (string \<rightharpoonup> int) \<Rightarrow> (string \<times> instrument) list \<Rightarrow> real \<Rightarrow> real action" where
  "gamma_loop bs positions [] Total_aggregate_gamma_position =
     ret Total_aggregate_gamma_position"
| "gamma_loop bs positions ((option_id, option) # options) Total_aggregate_gamma_position =
     and_then (getitem positions option_id) (\<lambda>position.
     and_then (py_print ''- The current position in option {option_id} is {position}.''
                 [VStr option_id, VInt position]) (\<lambda>_.
     and_then read_theoretical_value (\<lambda>theoretical_value.
     and_then (calculate_current_time_to_date (expiry option)) (\<lambda>T.
     let BS_gamma = gamma bs theoretical_value (strike option) T 0.03 3.0;
         Gamma_position = BS_gamma * real_of_int position in
     and_then (py_print ''- The current gamma position in option {option_id} is {Gamma_position}.''
                 [VStr option_id, VFloat Gamma_position]) (\<lambda>_.
     let Total = Total_aggregate_gamma_position + Gamma_position in
     and_then (py_print ''- The current total aggregate gamma position is {Total_aggregate_gamma_position}.''
                 [VFloat Total]) (\<lambda>_.
     gamma_loop bs positions options Total))))))"

text \<open>The order loop of lines 272--283; a float divided by the float zero raises.\<close>

fun gamma_order_loop ::
  "black_scholes \<Rightarrow> string \<Rightarrow> real \<Rightarrow> (string \<times> instrument) list \<Rightarrow> unit action" where
  "gamma_order_loop bs stock_id Total_aggregate_gamma_position [] = ret ()"
| "gamma_order_loop bs stock_id Total_aggregate_gamma_position ((option_id, option) # options) =
     and_then read_theoretical_value (\<lambda>theoretical_value.
     and_then (calculate_current_time_to_date (expiry option)) (\<lambda>T.
     let BS_gamma = gamma bs theoretical_value (strike option) T 0.03 3.0 in
     and_then (if BS_gamma = 0 then raise ZeroDivisionError
               else ret (Total_aggregate_gamma_position / BS_gamma)) (\<lambda>num_additional_options.
     and_then (get_last_price_book stock_id) (\<lambda>stock_order_book.
     and_then (book_bids stock_order_book) (\<lambda>the_bids.
     and_then (first_price the_bids) (\<lambda>best_bid_price.
     and_then (book_asks stock_order_book) (\<lambda>the_asks.
     and_then (first_price the_asks) (\<lambda>best_ask_price.
     and_then (insert_order option_id (Finite best_ask_price) (PyFloat num_additional_options)
                 ''ask'' ''limit'') (\<lambda>_.
     gamma_order_loop bs stock_id Total_aggregate_gamma_position options)))))))))"

definition hedge_gamma_position ::
  "black_scholes \<Rightarrow> string \<Rightarrow> (string \<times> instrument) list \<Rightarrow> real \<Rightarrow> unit action" where
  "hedge_gamma_position bs stock_id options stock_value =
     and_then (hedge_delta_position bs stock_id options stock_value) (\<lambda>_.
     and_then get_positions (\<lambda>positions.
     and_then (getitem positions stock_id) (\<lambda>stock_gamma.
     and_then (gamma_loop bs positions options (real_of_int stock_gamma))
       (\<lambda>Total_aggregate_gamma_position.
     and_then (getitem positions stock_id) (\<lambda>stock_position.
     and_then (py_print ''- The current position in the stock {stock_id} is {stock_position}.''
                 [VStr stock_id, VInt stock_position]) (\<lambda>_.
     and_then (gamma_order_loop bs stock_id Total_aggregate_gamma_position options) (\<lambda>_.
     hedge_delta_position bs stock_id options stock_value)))))))"

text \<open>The aggregation loop of lines 316--324.\<close>

fun vega_loop ::
  "black_scholes \<Rightarrow> (string \<rightharpoonup> int) \<Rightarrow> (string \<times> instrument) list \<Rightarrow> real \<Rightarrow> real action" where
  "vega_loop bs positions [] Total_aggregate_vega_position =
     ret Total_aggregate_vega_position"
| "vega_loop bs positions ((option_id, option) # options) Total_aggregate_vega_position =
     and_then (getitem positions option_id) (\<lambda>position.
     and_then (py_print ''- The current position in option {option_id} is {position}.''
                 [VStr option_id, VInt position]) (\<lambda>_.
     and_then read_theoretical_value (\<lambda>theoretical_value.
     and_then (calculate_current_time_to_date (expiry option)) (\<lambda>T.
     let BS_vega = call_vega bs theoretical_value (strike option) T 0.03 3.0 in
     and_then (py_print ''- The current vega in option {option_id} is {BS_vega}.''
                 [VStr option_id, VFloat BS_vega]) (\<lambda>_.
     let Vega_position = BS_vega * real_of_int position in
     and_then (py_print ''- The current vega position in option {option_id} is {Vega_position}.''
                 [VStr option_id, VFloat Vega_position]) (\<lambda>_.
     let Total = Total_aggregate_vega_position + Vega_position in
     and_then (py_print ''- The current total aggregate vega position is {Total_aggregate_vega_position}.''
                 [VFloat Total]) (\<lambda>_.
     vega_loop bs positions options Total)))))))"

text \<open>The last statement only rebinds the local \<open>positions\<close>.\<close>

definition hedge_vega_position ::
  "black_scholes \<Rightarrow> string \<Rightarrow> (string \<times> instrument) list \<Rightarrow> real \<Rightarrow> unit action" where
  "hedge_vega_position bs stock_id options stock_value =
     and_then get_positions (\<lambda>positions.
     and_then (getitem positions stock_id) (\<lambda>stock_vega.
     and_then (vega_loop bs positions options (real_of_int stock_vega))
       (\<lambda>Total_aggregate_vega_position.
     and_then (getitem positions stock_id) (\<lambda>stock_position.
     and_then (py_print ''- The current position in the stock {stock_id} is {stock_position}.''
                 [VStr stock_id, VInt stock_position]) (\<lambda>_.
     and_then (getitem positions stock_id) (\<lambda>p.
     and_then (loop_variable_option options) (\<lambda>option.
     and_then (calculate_option_delta bs (expiry option) (strike option) (option_kind option)
                 stock_value 0.03 3.0) (\<lambda>last_delta.
     let positions' = -1 * real_of_int p * last_delta in
     ret ()))))))))"

section \<open>The trade loop (options\_quoter.py, lines 340--381)\<close>

text \<open>The requoting loop of lines 352--374; it assigns the global \<open>theoretical_value\<close>.\<close>

fun quote_loop :: "black_scholes \<Rightarrow> real \<Rightarrow> (string \<times> instrument) list \<Rightarrow> unit action" where
  "quote_loop bs stock_value [] = ret ()"
| "quote_loop bs stock_value ((option_id, option) # options) =
     and_then (py_print (CHR 0x0A # ''Updating instrument {option_id}'') [VStr option_id]) (\<lambda>_.
     and_then (calculate_theoretical_option_value bs (expiry option) (strike option)
                 (option_kind option) stock_value 0.03 3.0) (\<lambda>theoretical_value.
     and_then (write_theoretical_value theoretical_value) (\<lambda>_.
     and_then (py_print ''option.expiry = {option.expiry}'' [VDatetime (expiry option)]) (\<lambda>_.
     and_then (calculate_current_time_to_date (expiry option)) (\<lambda>T.
     and_then (update_quotes option_id theoretical_value
                 (call_vega bs theoretical_value (strike option) T 0.03 3.0) 5 100 double_0_10) (\<lambda>_.
     and_then (time_sleep 0.20) (\<lambda>_.
     quote_loop bs stock_value options)))))))"

text \<open>One pass through the body of \<open>while True\<close>; \<open>continue\<close> ends the pass early.\<close>

definition trade_loop_iteration ::
  "black_scholes \<Rightarrow> string \<Rightarrow> (string \<times> instrument) list \<Rightarrow> unit action" where
  "trade_loop_iteration bs STOCK_ID options =
     and_then (py_print [] []) (\<lambda>_.
     and_then (py_print ''-----------------------------------------------------------------'' []) (\<lambda>_.
     and_then datetime_now (\<lambda>now.
     and_then (py_print ''TRADE LOOP ITERATION ENTERED AT {str(dt.datetime.now()):18s} UTC.''
                 [VDatetime now]) (\<lambda>_.
     and_then (py_print ''-----------------------------------------------------------------'' []) (\<lambda>_.
     and_then (get_midpoint_value STOCK_ID) (\<lambda>stock_value.
     if stock_value = None
     then
       and_then (py_print ''Empty stock order book on bid or ask-side, or both, unable to update option prices.'' []) (\<lambda>_.
       time_sleep 4)
     else
       and_then (quote_loop bs (the stock_value) options) (\<lambda>_.
       and_then (py_print (CHR 0x0A # ''Hedging delta position'') []) (\<lambda>_.
       and_then (hedge_gamma_position bs STOCK_ID options (the stock_value)) (\<lambda>_.
       and_then (py_print (CHR 0x0A # ''Sleeping for 4 seconds.'') []) (\<lambda>_.
       time_sleep 4))))))))))"

text \<open>
  \<open>while True\<close> has no exit of its own: \<open>trade_loop n\<close> is its first \<open>n\<close> passes, cut
  short by the first exception, which ends the script.
\<close>

fun trade_loop ::
  "black_scholes \<Rightarrow> string \<Rightarrow> (string \<times> instrument) list \<Rightarrow> nat \<Rightarrow> unit action" where
  "trade_loop bs STOCK_ID options 0 = ret ()"
| "trade_loop bs STOCK_ID options (Suc n) =
     and_then (trade_loop_iteration bs STOCK_ID options) (\<lambda>_.
     trade_loop bs STOCK_ID options n)"

section \<open>Quantities the specification names, and the vocabulary of the theorems\<close>

text \<open>
  These follow the specification's wording and are what the theorems below compare the
  script with. \<open>years_between\<close> is the time-to-expiry in years; \<open>BS_delta_of\<close> is
  the Black-Scholes delta of an option of kind CALL or PUT at the rate 0.03 and volatility
  3.0 the script uses; the aggregate delta starts from the raw stock position and adds
  delta times position over the chain; the hypothetical hedge size is minus the stock
  position times the delta of the last option of the chain.
\<close>

definition years_between :: "datetime \<Rightarrow> datetime \<Rightarrow> real" where
  "years_between expiry' reference = real_of_int (expiry' - reference) / 86400000000 / 365"

definition BS_delta_of :: "black_scholes \<Rightarrow> real \<Rightarrow> datetime \<Rightarrow> instrument \<Rightarrow> real" where
  "BS_delta_of bs stock_value now option =
     (if option_kind option = CALL
      then call_delta bs stock_value (strike option) (years_between (expiry option) now) 0.03 3.0
      else put_delta bs stock_value (strike option) (years_between (expiry option) now) 0.03 3.0)"

definition aggregate_delta ::
  "black_scholes \<Rightarrow> (string \<rightharpoonup> int) \<Rightarrow> string \<Rightarrow> (string \<times> instrument) list \<Rightarrow> real \<Rightarrow> datetime \<Rightarrow> real" where
  "aggregate_delta bs positions stock_id options stock_value now =
     real_of_int (the (positions stock_id))
     + (\<Sum>(option_id, option) \<leftarrow> options.
          BS_delta_of bs stock_value now option * real_of_int (the (positions option_id)))"

definition hedge_size ::
  "black_scholes \<Rightarrow> (string \<rightharpoonup> int) \<Rightarrow> string \<Rightarrow> (string \<times> instrument) list \<Rightarrow> real \<Rightarrow> datetime \<Rightarrow> real" where
  "hedge_size bs positions stock_id options stock_value now =
     - real_of_int (the (positions stock_id)) * BS_delta_of bs stock_value now (snd (last options))"


text \<open>Every option of the chain has a position entry and is a CALL or a PUT.\<close>

definition chain_ok :: "(string \<rightharpoonup> int) \<Rightarrow> (string \<times> instrument) list \<Rightarrow> bool" where
  "chain_ok positions options =
     list_all (\<lambda>(option_id, option). positions option_id \<noteq> None
                 \<and> (option_kind option = CALL \<or> option_kind option = PUT)) options"

text \<open>Two worlds that differ at most in what has been printed.\<close>

definition same_but_out :: "world \<Rightarrow> world \<Rightarrow> bool" where
  "same_but_out w w' =
     (market w' = market w \<and> react w' = react w \<and> calls w' = calls w
      \<and> clock w' = clock w \<and> g_theoretical_value w' = g_theoretical_value w)"

text \<open>The world after the calls \<open>cs\<close> have been sent, one after the other.\<close>

definition sent :: "venue_call list \<Rightarrow> world \<Rightarrow> world" where
  "sent cs w = w\<lparr>market := foldl (\<lambda>m c. react w c m) (market w) cs, calls := calls w @ cs\<rparr>"

text \<open>
  The calls of one delta hedge, given the aggregate delta \<open>D\<close>, the stock position \<open>P\<close>,
  the hypothetical hedge size \<open>H\<close> and the best prices of the stock's book.
\<close>

definition delta_hedge_calls ::
  "string \<Rightarrow> real \<Rightarrow> int \<Rightarrow> real \<Rightarrow> real \<Rightarrow> real \<Rightarrow> venue_call list" where
  "delta_hedge_calls stock_id D P H best_bid best_ask =
     (if D < 0
      then [InsertOrder stock_id (Finite best_ask)
              (PyInt (- py_int (if 1 \<le> \<bar>real_of_int P\<bar> - H \<and> \<bar>real_of_int P\<bar> - H \<le> 100
                                then H else 0)))
              ''bid'' ''ioc'']
      else if D > 0
      then [InsertOrder stock_id (Finite best_bid)
              (PyInt (- py_int (if 1 \<le> real_of_int P + H \<and> real_of_int P + H \<le> 100
                                then H else 0)))
              ''ask'' ''ioc'']
      else [])"

text \<open>
  The Black-Scholes gamma of an option, \<open>gamma(S, K, T, r, sigma)\<close> with \<open>S\<close> the
  value of the underlying, at the rate and volatility the script uses; the aggregate gamma
  built like the aggregate delta (the raw stock position plus gamma times position over
  the chain); a venue whose reaction to a call leaves the positions and the stock's book
  as they are; and the limit sells of the gamma hedge, sized by the aggregate over the
  option's gamma. All of them take the value \<open>S\<close> at which gamma is evaluated as an
  argument, so that the theorems can say which value the script passes.
\<close>

definition BS_gamma_of :: "black_scholes \<Rightarrow> real \<Rightarrow> datetime \<Rightarrow> instrument \<Rightarrow> real" where
  "BS_gamma_of bs S now option =
     gamma bs S (strike option) (years_between (expiry option) now) 0.03 3.0"

definition aggregate_gamma ::
  "black_scholes \<Rightarrow> (string \<rightharpoonup> int) \<Rightarrow> string \<Rightarrow> (string \<times> instrument) list \<Rightarrow> real \<Rightarrow> datetime \<Rightarrow> real" where
  "aggregate_gamma bs positions stock_id options S now =
     real_of_int (the (positions stock_id))
     + (\<Sum>(option_id, option) \<leftarrow> options.
          BS_gamma_of bs S now option * real_of_int (the (positions option_id)))"

definition quiet_venue :: "(venue_call \<Rightarrow> market \<Rightarrow> market) \<Rightarrow> string \<Rightarrow> bool" where
  "quiet_venue r stock_id =
     (\<forall>c m. venue_positions (r c m) = venue_positions m
          \<and> venue_books (r c m) stock_id = venue_books m stock_id)"

definition gamma_hedge_calls ::
  "black_scholes \<Rightarrow> real \<Rightarrow> real \<Rightarrow> datetime \<Rightarrow> real \<Rightarrow> (string \<times> instrument) list \<Rightarrow> venue_call list" where
  "gamma_hedge_calls bs G S now best_ask options =
     map (\<lambda>(option_id, option).
            InsertOrder option_id (Finite best_ask)
              (PyFloat (G / BS_gamma_of bs S now option)) ''ask'' ''limit'')
         options"

text \<open>
  A market in which the delta hedge can run: the stock and every option of the chain have
  a position entry, the chain holds calls and puts only, and the stock's book has both
  sides. A venue keeps it so when no reaction of its takes any of this away. The gamma
  hedge's limit sells, for any venue: one per option, in chain order, each at the best ask
  the stock's book shows when the order goes out, the venue reacting to each order before
  the next.
\<close>

definition ready :: "market \<Rightarrow> string \<Rightarrow> (string \<times> instrument) list \<Rightarrow> bool" where
  "ready m stock_id options =
     (venue_positions m stock_id \<noteq> None
      \<and> chain_ok (venue_positions m) options
      \<and> (case venue_books m stock_id of
            None \<Rightarrow> False
          | Some book \<Rightarrow> bids book \<noteq> [] \<and> asks book \<noteq> []))"

definition keeps_ready ::
  "(venue_call \<Rightarrow> market \<Rightarrow> market) \<Rightarrow> string \<Rightarrow> (string \<times> instrument) list \<Rightarrow> bool" where
  "keeps_ready r stock_id options =
     (\<forall>c m. ready m stock_id options \<longrightarrow> ready (r c m) stock_id options)"

definition best_ask :: "market \<Rightarrow> string \<Rightarrow> real" where
  "best_ask m stock_id = level_price (hd (asks (the (venue_books m stock_id))))"

fun gamma_calls_from ::
  "(venue_call \<Rightarrow> market \<Rightarrow> market) \<Rightarrow> black_scholes \<Rightarrow> real \<Rightarrow> real \<Rightarrow> datetime \<Rightarrow> string
     \<Rightarrow> market \<Rightarrow> (string \<times> instrument) list \<Rightarrow> venue_call list" where
  "gamma_calls_from r bs G S now stock_id m [] = []"
| "gamma_calls_from r bs G S now stock_id m ((option_id, option) # options) =
     InsertOrder option_id (Finite (best_ask m stock_id))
       (PyFloat (G / BS_gamma_of bs S now option)) ''ask'' ''limit''
     # gamma_calls_from r bs G S now stock_id
         (r (InsertOrder option_id (Finite (best_ask m stock_id))
               (PyFloat (G / BS_gamma_of bs S now option)) ''ask'' ''limit'') m)
         options"

text \<open>
  The vega of an option, always the call vega \<open>call_vega(S, K, T, r, sigma)\<close> with
  \<open>S\<close> the value of the underlying, and the aggregate vega in the specification's
  words: the sum of vega times position over the option chain.
\<close>

definition BS_vega_of :: "black_scholes \<Rightarrow> real \<Rightarrow> datetime \<Rightarrow> instrument \<Rightarrow> real" where
  "BS_vega_of bs S now option =
     call_vega bs S (strike option) (years_between (expiry option) now) 0.03 3.0"

definition aggregate_vega ::
  "black_scholes \<Rightarrow> (string \<rightharpoonup> int) \<Rightarrow> (string \<times> instrument) list \<Rightarrow> real \<Rightarrow> datetime \<Rightarrow> real" where
  "aggregate_vega bs positions options S now =
     (\<Sum>(option_id, option) \<leftarrow> options.
          BS_vega_of bs S now option * real_of_int (the (positions option_id)))"

text \<open>
  No line of the vega stage has been printed: the stage prints the line tested here once
  for every option it looks at, and no other statement of the script prints it.
\<close>

definition vega_silent :: "world \<Rightarrow> bool" where
  "vega_silent w =
     list_all (\<lambda>l. fst l \<noteq> ''- The current vega in option {option_id} is {BS_vega}.'') (out w)"

text \<open>The world once a pass of the trade loop has printed its banner.\<close>

definition banner_printed :: "world \<Rightarrow> world" where
  "banner_printed w =
     w\<lparr>out := out w @
          [([], []),
           (''-----------------------------------------------------------------'', []),
           (''TRADE LOOP ITERATION ENTERED AT {str(dt.datetime.now()):18s} UTC.'', [VDatetime (clock w)]),
           (''-----------------------------------------------------------------'', [])]\<rparr>"

text \<open>
  A statement that changes nothing but the printed output, and a statement that prints no
  line of the vega stage.
\<close>

definition only_prints :: "'a action \<Rightarrow> bool" where
  "only_prints m = (\<forall>w. same_but_out w (snd (m w)))"

definition keeps_silent :: "'a action \<Rightarrow> bool" where
  "keeps_silent m = (\<forall>w. vega_silent w \<longrightarrow> vega_silent (snd (m w)))"

section \<open>Example inputs\<close>

text \<open>
  A pricing module with constant values and deltas and with a vega and a gamma that grow
  with the value \<open>S\<close> they are evaluated at (1.25 and 0.25 at 52.5), a chain of one
  call, and a world in which the venue does not react: stock position \<open>P\<close>, option
  position \<open>q\<close>, best bid 100 and best ask 101 on the stock, and 52.5 left in the global
  \<open>theoretical_value\<close>.
\<close>

definition example_bs :: black_scholes where
  "example_bs =
     \<lparr>call_value = (\<lambda>S K T r sigma. 105 / 2),
      put_value = (\<lambda>S K T r sigma. 3),
      call_delta = (\<lambda>S K T r sigma. 3 / 5),
      put_delta = (\<lambda>S K T r sigma. - 2 / 5),
      call_vega = (\<lambda>S K T r sigma. S / 42),
      gamma = (\<lambda>S K T r sigma. S / 210)\<rparr>"

definition example_options :: "(string \<times> instrument) list" where
  "example_options = [(''NVDA_C'', \<lparr>expiry = 31536000000000, strike = 50, option_kind = CALL\<rparr>)]"

definition example_book :: price_book where
  "example_book = \<lparr>bids = [\<lparr>level_price = 100, level_volume = 10\<rparr>],
                    asks = [\<lparr>level_price = 101, level_volume = 10\<rparr>]\<rparr>"

definition example_world :: "int \<Rightarrow> int \<Rightarrow> world" where
  "example_world P q =
     \<lparr>market =
        \<lparr>venue_positions = [''NVDA'' \<mapsto> P, ''NVDA_C'' \<mapsto> q],
         venue_books = [''NVDA'' \<mapsto> example_book],
         venue_outstanding = (\<lambda>_. []),
         venue_new_trades = (\<lambda>_. [])\<rparr>,
      react = (\<lambda>c m. m),
      calls = [],
      out = [],
      clock = 0,
      g_theoretical_value = Some (105 / 2)\<rparr>"

text \<open>The same world with no bid in the stock's book.\<close>

definition empty_bids_world :: world where
  "empty_bids_world =
     (example_world 0 0)
       \<lparr>market := (market (example_world 0 0))
          \<lparr>venue_books := [''NVDA'' \<mapsto> \<lparr>bids = [], asks = [\<lparr>level_price = 101, level_volume = 10\<rparr>]\<rparr>]\<rparr>\<rparr>"

section \<open>Properties\<close>

subsection \<open>Python floats\<close>

lemma two_to_powr: "two_to k = 2 powr (of_int k)"
  by (simp add: two_to_def powr_real_of_int inverse_eq_divide)


lemma two_to_mono: "a \<le> b \<Longrightarrow> two_to a \<le> two_to b"
  by (simp add: two_to_powr)


lemma exponent_bracket:
  assumes "y \<noteq> 0"
  shows "two_to (if 1 \<le> \<bar>y\<bar> then bitlen \<lfloor>\<bar>y\<bar>\<rfloor> - 1 else - bitlen (\<lceil>1 / \<bar>y\<bar>\<rceil> - 1)) \<le> \<bar>y\<bar>"
    and "\<bar>y\<bar> < two_to ((if 1 \<le> \<bar>y\<bar> then bitlen \<lfloor>\<bar>y\<bar>\<rfloor> - 1 else - bitlen (\<lceil>1 / \<bar>y\<bar>\<rceil> - 1)) + 1)"
proof -
  define e where "e = (if 1 \<le> \<bar>y\<bar> then bitlen \<lfloor>\<bar>y\<bar>\<rfloor> - 1 else - bitlen (\<lceil>1 / \<bar>y\<bar>\<rceil> - 1))"
  let ?a = "\<bar>y\<bar>"
  from assms(1) have a: "0 < ?a" by simp
  have "two_to e \<le> ?a \<and> ?a < two_to (e + 1)"
  proof (cases "1 \<le> ?a")
    case True
    let ?n = "\<lfloor>?a\<rfloor>"
    from True have n: "0 < ?n" by simp
    from bitlen_bounds [OF n] have lo: "2 ^ nat (bitlen ?n - 1) \<le> ?n" and hi: "?n < 2 ^ nat (bitlen ?n)"
      by simp_all
    from n have b1: "1 \<le> bitlen ?n" by (simp add: bitlen_alt_def)
    have e: "e = bitlen ?n - 1" using True by (simp add: e_def)
    from lo have "real_of_int (2 ^ nat (bitlen ?n - 1)) \<le> real_of_int ?n" by linarith
    also have "\<dots> \<le> ?a" by simp
    finally have 1: "two_to e \<le> ?a" using b1 by (simp add: e two_to_def)
    from hi have "?n + 1 \<le> 2 ^ nat (bitlen ?n)" by simp
    then have "real_of_int (?n + 1) \<le> real_of_int (2 ^ nat (bitlen ?n))" by linarith
    moreover have "?a < real_of_int (?n + 1)" by linarith
    ultimately have "?a < real_of_int (2 ^ nat (bitlen ?n))" by linarith
    then have 2: "?a < two_to (e + 1)" using b1 by (simp add: e two_to_def)
    from 1 2 show ?thesis by simp
  next
    case False
    let ?k = "\<lceil>1 / ?a\<rceil>"
    let ?j = "bitlen (?k - 1)"
    from False a have inv: "1 < 1 / ?a" by simp
    then have k: "0 < ?k - 1" by linarith
    from bitlen_bounds [OF k] have lo: "2 ^ nat (?j - 1) \<le> ?k - 1" and hi: "?k - 1 < 2 ^ nat ?j"
      by simp_all
    from k have j1: "1 \<le> ?j" by (simp add: bitlen_alt_def)
    have e: "e = - ?j" using False by (simp add: e_def)
    from hi have "?k \<le> 2 ^ nat ?j" by simp
    then have "real_of_int ?k \<le> real_of_int (2 ^ nat ?j)" by linarith
    moreover have "1 / ?a \<le> real_of_int ?k" by linarith
    ultimately have "1 / ?a \<le> real_of_int (2 ^ nat ?j)" by linarith
    then have "1 / ?a \<le> 2 ^ nat ?j" by simp
    then have "1 \<le> 2 ^ nat ?j * ?a" using a by (simp add: field_simps)
    then have 1: "two_to e \<le> ?a" using j1 by (simp add: e two_to_def field_simps)
    from lo have "real_of_int (2 ^ nat (?j - 1)) \<le> real_of_int (?k - 1)" by linarith
    moreover have "real_of_int (?k - 1) < 1 / ?a" by linarith
    ultimately have "real_of_int (2 ^ nat (?j - 1)) < 1 / ?a" by linarith
    then have "2 ^ nat (?j - 1) < 1 / ?a" by simp
    then have lt: "2 ^ nat (?j - 1) * ?a < 1" using a by (simp add: field_simps)
    have 2: "?a < two_to (e + 1)"
    proof (cases "?j = 1")
      case True
      with lt show ?thesis by (simp add: e two_to_def)
    next
      case False
      with j1 have "- ?j + 1 < 0" by simp
      moreover have "nat (?j - 1) = nat (- (- ?j + 1))" by simp
      ultimately show ?thesis using lt a by (simp add: e two_to_def field_simps)
    qed
    from 1 2 show ?thesis by simp
  qed
  then show "two_to (if 1 \<le> \<bar>y\<bar> then bitlen \<lfloor>\<bar>y\<bar>\<rfloor> - 1 else - bitlen (\<lceil>1 / \<bar>y\<bar>\<rceil> - 1)) \<le> \<bar>y\<bar>"
    and "\<bar>y\<bar> < two_to ((if 1 \<le> \<bar>y\<bar> then bitlen \<lfloor>\<bar>y\<bar>\<rfloor> - 1 else - bitlen (\<lceil>1 / \<bar>y\<bar>\<rceil> - 1)) + 1)"
    unfolding e_def by blast+
qed

lemma double_exponent_eqI:
  assumes "y \<noteq> 0" and "- 1022 \<le> e" and "two_to e \<le> \<bar>y\<bar>" and "\<bar>y\<bar> < two_to (e + 1)"
  shows "double_exponent y = e"
proof -
  let ?e = "(if 1 \<le> \<bar>y\<bar> then bitlen \<lfloor>\<bar>y\<bar>\<rfloor> - 1 else - bitlen (\<lceil>1 / \<bar>y\<bar>\<rceil> - 1))"
  note b = exponent_bracket [OF assms(1)]
  have "?e = e"
  proof (rule ccontr)
    assume "?e \<noteq> e"
    then consider "?e + 1 \<le> e" | "e + 1 \<le> ?e" by linarith
    then show False
    proof cases
      case 1
      from two_to_mono [OF 1] b(2) assms(3) show False by linarith
    next
      case 2
      from two_to_mono [OF 2] b(1) assms(4) show False by linarith
    qed
  qed
  with assms(2) show ?thesis by (simp add: double_exponent_def)
qed

lemma double_exponent_subnormal:
  assumes "y \<noteq> 0" and "\<bar>y\<bar> < two_to (- 1022)"
  shows "double_exponent y = - 1022"
proof -
  let ?e = "(if 1 \<le> \<bar>y\<bar> then bitlen \<lfloor>\<bar>y\<bar>\<rfloor> - 1 else - bitlen (\<lceil>1 / \<bar>y\<bar>\<rceil> - 1))"
  note b = exponent_bracket [OF assms(1)]
  have "?e \<le> - 1022"
  proof (rule ccontr)
    assume "\<not> ?e \<le> - 1022"
    then have "- 1022 \<le> ?e" by linarith
    from two_to_mono [OF this] b(1) assms(2) show False by linarith
  qed
  then show ?thesis by (simp add: double_exponent_def)
qed


lemma round_half_even_of_int: "round_half_even (of_int m) = m"
  by (simp add: round_half_even_def)

lemma to_double_eq:
  assumes "y \<noteq> 0" and "- 1022 \<le> e" and "two_to e \<le> \<bar>y\<bar>" and "\<bar>y\<bar> < two_to (e + 1)"
  shows "to_double y =
     (let v = of_int (round_half_even (y / two_to (e - 52))) * two_to (e - 52)
      in if 2 ^ 1024 \<le> v then PosInf
         else if v \<le> - (2 ^ 1024) then NegInf
         else Finite v)"
  using assms(1) by (simp add: to_double_def double_exponent_eqI [OF assms] Let_def)


subsection \<open>Time to expiry\<close>

lemma mod_day_mod_second:
  "(us::int) mod 86400000000 mod 1000000 = us mod 1000000"
  by (rule mod_mod_cancel) simp

lemma to_microseconds_of_microseconds:
  "to_microseconds (timedelta_of_microseconds us) = us"
proof -
  have "us mod 86400000000 div 1000000 * 1000000 + us mod 86400000000 mod 1000000
          = us mod 86400000000"
    by (rule div_mult_mod_eq)
  then have "us div 86400000000 * 86400000000
          + (us mod 86400000000 div 1000000 * 1000000 + us mod 1000000) = us"
    by (simp add: mod_day_mod_second)
  then show ?thesis
    by (simp add: to_microseconds_def timedelta_of_microseconds_def algebra_simps)
qed

lemma time_to_date_eq:
  "calculate_time_to_date expiry_date current_time = Inr (years_between expiry_date current_time)"
proof -
  have "to_microseconds timedelta_one_day = 86400000000"
    by (simp add: to_microseconds_def timedelta_one_day_def)
  then show ?thesis
    by (simp add: calculate_time_to_date_def timedelta_truediv_def datetime_sub_def
        to_microseconds_of_microseconds years_between_def)
qed

text \<open>
  C9. For every expiry and reference timestamp, the time-to-expiry utility returns the
  difference expiry - reference expressed in days (microseconds over 86400000000) divided
  by 365; the result is negative exactly when the reference time is after the expiry.
\<close>

theorem calculate_time_to_date_years:
  "calculate_time_to_date expiry_date current_time =
     Inr (real_of_int (expiry_date - current_time) / 86400000000 / 365)
   \<and> (\<exists>y. calculate_time_to_date expiry_date current_time = Inr y
          \<and> (y < 0) = (expiry_date < current_time))"
proof -
  have "(years_between expiry_date current_time < 0) = (expiry_date < current_time)"
    by (simp add: years_between_def divide_less_0_iff)
  then show ?thesis
    by (simp add: time_to_date_eq) (simp add: years_between_def)
qed

subsection \<open>Running statements\<close>

lemma current_time_to_date:
  "calculate_current_time_to_date expiry_date w = (Inr (years_between expiry_date (clock w)), w)"
  by (simp add: calculate_current_time_to_date_def and_then_def datetime_now_def lift_def
      time_to_date_eq)

lemma same_but_out_refl: "same_but_out w w"
  by (simp add: same_but_out_def)

lemma same_but_out_trans: "same_but_out a b \<Longrightarrow> same_but_out b c \<Longrightarrow> same_but_out a c"
  by (simp add: same_but_out_def)

subsection \<open>The delta computation\<close>

text \<open>
  C8. The delta computation fails with the unexpected-kind exception if and only if the
  option kind is neither CALL nor PUT, and then it fails in no other way; for CALL it
  returns what \<open>call_delta\<close> returns and for PUT what \<open>put_delta\<close> returns, at the
  time to expiry read from the clock. No other kind is replaced by a default.
\<close>

theorem calculate_option_delta_kinds:
  "calculate_option_delta bs expiry_date K CALL S r sigma w =
     (Inr (call_delta bs S K (years_between expiry_date (clock w)) r sigma), w)
   \<and> calculate_option_delta bs expiry_date K PUT S r sigma w =
     (Inr (put_delta bs S K (years_between expiry_date (clock w)) r sigma), w)
   \<and> calculate_option_delta bs expiry_date K (OtherKind s) S r sigma w =
     (Inl (UnexpectedOptionKind (OtherKind s)), w)
   \<and> (fst (calculate_option_delta bs expiry_date K kind S r sigma w)
         = Inl (UnexpectedOptionKind kind)) = (kind \<noteq> CALL \<and> kind \<noteq> PUT)
   \<and> (\<exists>e. fst (calculate_option_delta bs expiry_date K kind S r sigma w) = Inl e)
       = (kind \<noteq> CALL \<and> kind \<noteq> PUT)"
  by (cases kind)
     (simp_all add: calculate_option_delta_def and_then_def current_time_to_date ret_def raise_def)

lemma option_delta_ok:
  "option_kind option = CALL \<or> option_kind option = PUT \<Longrightarrow>
   calculate_option_delta bs (expiry option) (strike option) (option_kind option) sv (3 / 100) 3 w
     = (Inr (BS_delta_of bs sv (clock w) option), w)"
  by (auto simp: calculate_option_delta_def and_then_def current_time_to_date ret_def
      BS_delta_of_def)

subsection \<open>The delta hedge\<close>

lemma delta_loop_ok:
  "chain_ok positions options \<Longrightarrow>
   \<exists>w'. delta_loop bs positions sv options T w =
          (Inr (T + (\<Sum>(option_id, option) \<leftarrow> options.
                  BS_delta_of bs sv (clock w) option * real_of_int (the (positions option_id)))), w')
        \<and> same_but_out w w'"
proof (induction options arbitrary: T w)
  case Nil
  then show ?case by (simp add: ret_def same_but_out_refl)
next
  case (Cons x options)
  obtain option_id option where x: "x = (option_id, option)" by (cases x)
  from Cons.prems x obtain position where
    pos: "positions option_id = Some position"
    and kind: "option_kind option = CALL \<or> option_kind option = PUT"
    and rest: "chain_ok positions options"
    by (auto simp: chain_ok_def)
  let ?T = "T + BS_delta_of bs sv (clock w) option * real_of_int position"
  let ?w = "w\<lparr>out := out w @
      [(''- The current position in option {option_id} is {position}.'',
          [VStr option_id, VInt position]),
       (''- The current delta in option {option_id} is {BS_delta}.'',
          [VStr option_id, VFloat (BS_delta_of bs sv (clock w) option)]),
       (''- The current delta position in option {option_id} is {Delta_position}.'',
          [VStr option_id, VFloat (BS_delta_of bs sv (clock w) option * real_of_int position)]),
       (''- The current total aggregate delta position is {Total_aggregate_delta_position}.'',
          [VFloat ?T])]\<rparr>"
  have step: "delta_loop bs positions sv ((option_id, option) # options) T w
                = delta_loop bs positions sv options ?T ?w"
    using pos kind
    by (simp add: and_then_def getitem_def ret_def py_print_def option_delta_ok Let_def)
  from Cons.IH [OF rest, of ?T ?w] obtain w' where
    "delta_loop bs positions sv options ?T ?w =
       (Inr (?T + (\<Sum>(option_id, option) \<leftarrow> options.
                  BS_delta_of bs sv (clock ?w) option * real_of_int (the (positions option_id)))), w')"
    and "same_but_out ?w w'" by blast
  then show ?case
    using pos by (simp add: step x same_but_out_def add.assoc del: delta_loop.simps)
qed

lemma hedge_delta_position_ok:
  assumes P: "venue_positions (market w) stock_id = Some P"
    and ne: "options \<noteq> []"
    and ok: "chain_ok (venue_positions (market w)) options"
    and book: "venue_books (market w) stock_id = Some book"
    and bids: "bids book = b # bs'"
    and asks: "asks book = a # as'"
  shows "\<exists>w'. hedge_delta_position bs stock_id options sv w = (Inr (), w')
          \<and> same_but_out
               (sent (delta_hedge_calls stock_id
                        (aggregate_delta bs (venue_positions (market w)) stock_id options sv (clock w))
                        P
                        (hedge_size bs (venue_positions (market w)) stock_id options sv (clock w))
                        (level_price b) (level_price a)) w) w'"
proof -
  let ?ps = "venue_positions (market w)"
  from delta_loop_ok [OF ok, of bs sv "real_of_int P" w] obtain w1 where
    loop: "delta_loop bs ?ps sv options (real_of_int P) w =
            (Inr (aggregate_delta bs ?ps stock_id options sv (clock w)), w1)"
    and w1: "same_but_out w w1"
    by (auto simp: aggregate_delta_def P)
  from ok ne have last_kind:
    "option_kind (snd (last options)) = CALL \<or> option_kind (snd (last options)) = PUT"
    by (auto simp: chain_ok_def list_all_iff dest!: last_in_set)
  note last_delta = option_delta_ok [OF last_kind]
  from w1 have eqs: "market w1 = market w" "react w1 = react w" "calls w1 = calls w"
    "clock w1 = clock w" "g_theoretical_value w1 = g_theoretical_value w"
    by (simp_all add: same_but_out_def)
  show ?thesis
    unfolding hedge_delta_position_def
    using P ne book bids asks
    by (simp add: and_then_def get_positions_def getitem_def ret_def loop py_print_def
        loop_variable_option_def last_delta get_last_price_book_def eqs book_bids_def
        book_asks_def first_price_def insert_order_def send_def Let_def
        delta_hedge_calls_def sent_def same_but_out_def hedge_size_def)
qed

subsection \<open>The example inputs\<close>

lemma example_position: "venue_positions (market (example_world P q)) ''NVDA'' = Some P"
  by (simp add: example_world_def)

lemma example_options_nonempty: "example_options \<noteq> []"
  by (simp add: example_options_def)

lemma example_chain_ok: "chain_ok (venue_positions (market (example_world P q))) example_options"
  by (simp add: example_world_def example_options_def chain_ok_def)

lemma example_stock_book: "venue_books (market (example_world P q)) ''NVDA'' = Some example_book"
  by (simp add: example_world_def)

lemma example_bids: "bids example_book = \<lparr>level_price = 100, level_volume = 10\<rparr> # []"
  by (simp add: example_book_def)

lemma example_asks: "asks example_book = \<lparr>level_price = 101, level_volume = 10\<rparr> # []"
  by (simp add: example_book_def)

lemma example_aggregate_delta:
  "aggregate_delta example_bs (venue_positions (market (example_world P q))) ''NVDA''
      example_options sv now = real_of_int P + 3 / 5 * real_of_int q"
  by (simp add: aggregate_delta_def example_world_def example_options_def BS_delta_of_def
      example_bs_def)

lemma example_last_delta:
  "BS_delta_of example_bs sv now (snd (last example_options)) = 3 / 5"
  by (simp add: example_options_def BS_delta_of_def example_bs_def)

subsection \<open>Claims about the delta hedge\<close>

text \<open>
  C3, as the specification states it, fails. Short 10 shares, with a last option of delta
  3/5: the aggregate delta is -10, the hypothetical hedge size is H = 6, and the clamp bound
  is satisfied, in the script's form (|position| - H = 4) and in the specification's
  (|position - H| = 16); the order that goes out has side bid and the volume -6, which
  buys nothing. Long 1 share and short 20 calls: the aggregate delta is -11, H = -0.6,
  the bound is satisfied in both forms (1.6), and the order has volume zero.
\<close>

theorem hedge_delta_position_direction_counterexample:
  "aggregate_delta example_bs (venue_positions (market (example_world (- 10) 0))) ''NVDA''
      example_options 100 (clock (example_world (- 10) 0)) = - 10
   \<and> hedge_size example_bs (venue_positions (market (example_world (- 10) 0))) ''NVDA''
        example_options 100 (clock (example_world (- 10) 0)) = 6
   \<and> (1 \<le> \<bar>real_of_int (- 10)\<bar> - 6 \<and> \<bar>real_of_int (- 10)\<bar> - 6 \<le> (100 :: real))
   \<and> (1 \<le> \<bar>real_of_int (- 10) - 6\<bar> \<and> \<bar>real_of_int (- 10) - 6\<bar> \<le> (100 :: real))
   \<and> calls (snd (hedge_delta_position example_bs ''NVDA'' example_options 100 (example_world (- 10) 0)))
       = [InsertOrder ''NVDA'' (Finite 101) (PyInt (- 6)) ''bid'' ''ioc'']
   \<and> aggregate_delta example_bs (venue_positions (market (example_world 1 (- 20)))) ''NVDA''
      example_options 100 (clock (example_world 1 (- 20))) = - 11
   \<and> hedge_size example_bs (venue_positions (market (example_world 1 (- 20)))) ''NVDA''
        example_options 100 (clock (example_world 1 (- 20))) = - 3 / 5
   \<and> (1 \<le> \<bar>real_of_int 1\<bar> - (- 3 / 5) \<and> \<bar>real_of_int 1\<bar> - (- 3 / 5) \<le> (100 :: real))
   \<and> (1 \<le> \<bar>real_of_int 1 - (- 3 / 5)\<bar> \<and> \<bar>real_of_int 1 - (- 3 / 5)\<bar> \<le> (100 :: real))
   \<and> calls (snd (hedge_delta_position example_bs ''NVDA'' example_options 100 (example_world 1 (- 20))))
       = [InsertOrder ''NVDA'' (Finite 101) (PyInt 0) ''bid'' ''ioc'']"
proof -
  from hedge_delta_position_ok [OF example_position [of "-10" 0] example_options_nonempty
          example_chain_ok [of "-10" 0] example_stock_book [of "-10" 0] example_bids example_asks,
          where bs = example_bs and sv = 100]
  have short: "calls (snd (hedge_delta_position example_bs ''NVDA'' example_options 100 (example_world (- 10) 0)))
       = calls (example_world (- 10) 0) @ [InsertOrder ''NVDA'' (Finite 101) (PyInt (- 6)) ''bid'' ''ioc'']"
    by (auto simp: same_but_out_def sent_def delta_hedge_calls_def hedge_size_def
        example_aggregate_delta example_last_delta py_int_def example_position)
  from hedge_delta_position_ok [OF example_position [of 1 "-20"] example_options_nonempty
          example_chain_ok [of 1 "-20"] example_stock_book [of 1 "-20"] example_bids example_asks,
          where bs = example_bs and sv = 100]
  have small: "calls (snd (hedge_delta_position example_bs ''NVDA'' example_options 100 (example_world 1 (- 20))))
       = calls (example_world 1 (- 20)) @ [InsertOrder ''NVDA'' (Finite 101) (PyInt 0) ''bid'' ''ioc'']"
    by (auto simp: same_but_out_def sent_def delta_hedge_calls_def hedge_size_def
        example_aggregate_delta example_last_delta py_int_def example_position)
  from short small show ?thesis
    by (simp add: hedge_size_def example_last_delta example_position example_aggregate_delta)
       (simp add: example_world_def)
qed

text \<open>
  C3, amended. In a state where the stock and every option of a non-empty chain of calls
  and puts have a position entry and the stock's book has both sides,
  \<open>hedge_delta_position\<close> returns normally. With H = - position(stock) *
  BS\_delta(last option of the chain): if the aggregate delta is strictly negative it sends
  exactly one order, immediate-or-cancel, of side bid, at the best ask, and no order of
  side ask; when the bound of the buying branch, 1 <= |position(stock)| - H <= 100, is
  satisfied, that order buys int(-H) >= 1 shares if H <= -1 and has volume zero if
  -1 < H < 1. If the aggregate delta is strictly positive it sends exactly one order,
  immediate-or-cancel, of side ask, at the best bid; when the bound of the selling branch,
  1 <= position(stock) + H <= 100, is satisfied, that order sells int(-H) >= 1 shares if
  H <= -1 and has volume zero if -1 < H < 1. If the aggregate delta is zero it sends
  nothing.
\<close>

theorem hedge_delta_position_direction:
  assumes "venue_positions (market w) stock_id = Some P"
    and "options \<noteq> []"
    and "chain_ok (venue_positions (market w)) options"
    and "venue_books (market w) stock_id = Some book"
    and "bids book = b # bs'"
    and "asks book = a # as'"
  shows "let D = aggregate_delta bs (venue_positions (market w)) stock_id options sv (clock w);
             H = hedge_size bs (venue_positions (market w)) stock_id options sv (clock w);
             w' = snd (hedge_delta_position bs stock_id options sv w)
         in fst (hedge_delta_position bs stock_id options sv w) = Inr ()
          \<and> (D < 0 \<longrightarrow>
               (\<exists>v. calls w' = calls w @ [InsertOrder stock_id (Finite (level_price a)) (PyInt v) ''bid'' ''ioc'']
                  \<and> (1 \<le> \<bar>real_of_int P\<bar> - H \<and> \<bar>real_of_int P\<bar> - H \<le> 100 \<and> H \<le> - 1 \<longrightarrow>
                        v = - py_int H \<and> 1 \<le> v)
                  \<and> (1 \<le> \<bar>real_of_int P\<bar> - H \<and> \<bar>real_of_int P\<bar> - H \<le> 100 \<and> - 1 < H \<and> H < 1 \<longrightarrow>
                        v = 0)))
          \<and> (D > 0 \<longrightarrow>
               (\<exists>v. calls w' = calls w @ [InsertOrder stock_id (Finite (level_price b)) (PyInt v) ''ask'' ''ioc'']
                  \<and> (1 \<le> real_of_int P + H \<and> real_of_int P + H \<le> 100 \<and> H \<le> - 1 \<longrightarrow>
                        v = - py_int H \<and> 1 \<le> v)
                  \<and> (1 \<le> real_of_int P + H \<and> real_of_int P + H \<le> 100 \<and> - 1 < H \<and> H < 1 \<longrightarrow>
                        v = 0)))
          \<and> (D = 0 \<longrightarrow> calls w' = calls w)"
proof -
  let ?D = "aggregate_delta bs (venue_positions (market w)) stock_id options sv (clock w)"
  let ?H = "hedge_size bs (venue_positions (market w)) stock_id options sv (clock w)"
  let ?w' = "snd (hedge_delta_position bs stock_id options sv w)"
  from hedge_delta_position_ok [OF assms, of bs sv] have
    ok: "fst (hedge_delta_position bs stock_id options sv w) = Inr ()"
    and cs: "calls ?w' = calls w @ delta_hedge_calls stock_id ?D P ?H (level_price b) (level_price a)"
    by (auto simp: same_but_out_def sent_def)
  have big: "1 \<le> - py_int ?H" if "?H \<le> - 1"
  proof -
    from that have "\<lceil>?H\<rceil> \<le> - 1" by (simp add: ceiling_le_iff)
    with that show ?thesis by (simp add: py_int_def)
  qed
  have small: "py_int ?H = 0" if "- 1 < ?H" and "?H < 1"
  proof (cases "0 \<le> ?H")
    case True
    with that have "\<lfloor>?H\<rfloor> = 0" by (simp add: floor_eq_iff)
    with True show ?thesis by (simp add: py_int_def)
  next
    case False
    with that have "\<lceil>?H\<rceil> = 0" by (simp add: ceiling_eq_iff)
    with False show ?thesis by (simp add: py_int_def)
  qed
  have neg: "\<exists>v. calls ?w' = calls w @ [InsertOrder stock_id (Finite (level_price a)) (PyInt v) ''bid'' ''ioc'']
                  \<and> (1 \<le> \<bar>real_of_int P\<bar> - ?H \<and> \<bar>real_of_int P\<bar> - ?H \<le> 100 \<and> ?H \<le> - 1 \<longrightarrow>
                        v = - py_int ?H \<and> 1 \<le> v)
                  \<and> (1 \<le> \<bar>real_of_int P\<bar> - ?H \<and> \<bar>real_of_int P\<bar> - ?H \<le> 100 \<and> - 1 < ?H \<and> ?H < 1 \<longrightarrow>
                        v = 0)" if "?D < 0"
    using that cs big small by (simp add: delta_hedge_calls_def)
  have pos: "\<exists>v. calls ?w' = calls w @ [InsertOrder stock_id (Finite (level_price b)) (PyInt v) ''ask'' ''ioc'']
                  \<and> (1 \<le> real_of_int P + ?H \<and> real_of_int P + ?H \<le> 100 \<and> ?H \<le> - 1 \<longrightarrow>
                        v = - py_int ?H \<and> 1 \<le> v)
                  \<and> (1 \<le> real_of_int P + ?H \<and> real_of_int P + ?H \<le> 100 \<and> - 1 < ?H \<and> ?H < 1 \<longrightarrow>
                        v = 0)" if "?D > 0"
    using that cs big small by (simp add: delta_hedge_calls_def)
  have zero: "calls ?w' = calls w" if "?D = 0"
    using that cs by (simp add: delta_hedge_calls_def)
  from ok neg pos zero show ?thesis
    unfolding Let_def by blast
qed

text \<open>
  Long 4 shares and short 20 calls of delta 3/5: the aggregate delta is -8, H = -2.4, the
  bound holds (6.4), and the hedge buys 2 shares at the best ask 101. Long 99 shares: the
  aggregate delta is 99, H = -59.4, the bound holds (39.6), and the hedge sells 59 shares
  at the best bid 100.
\<close>

theorem hedge_delta_position_direction_witness:
  "aggregate_delta example_bs (venue_positions (market (example_world 4 (-20)))) ''NVDA''
      example_options 100 (clock (example_world 4 (-20))) < 0
   \<and> fst (hedge_delta_position example_bs ''NVDA'' example_options 100 (example_world 4 (-20))) = Inr ()
   \<and> calls (snd (hedge_delta_position example_bs ''NVDA'' example_options 100 (example_world 4 (-20))))
       = [InsertOrder ''NVDA'' (Finite 101) (PyInt 2) ''bid'' ''ioc'']
   \<and> aggregate_delta example_bs (venue_positions (market (example_world 99 0))) ''NVDA''
      example_options 100 (clock (example_world 99 0)) > 0
   \<and> calls (snd (hedge_delta_position example_bs ''NVDA'' example_options 100 (example_world 99 0)))
       = [InsertOrder ''NVDA'' (Finite 100) (PyInt 59) ''ask'' ''ioc'']"
proof -
  note buy = hedge_delta_position_direction [OF example_position [of 4 "-20"] example_options_nonempty
          example_chain_ok [of 4 "-20"] example_stock_book [of 4 "-20"] example_bids example_asks,
          where bs = example_bs and sv = 100, unfolded Let_def]
  note sell = hedge_delta_position_direction [OF example_position [of 99 0] example_options_nonempty
          example_chain_ok [of 99 0] example_stock_book [of 99 0] example_bids example_asks,
          where bs = example_bs and sv = 100, unfolded Let_def]
  have H1: "hedge_size example_bs (venue_positions (market (example_world 4 (-20)))) ''NVDA''
        example_options 100 (clock (example_world 4 (-20))) = - 12 / 5"
    by (simp add: hedge_size_def example_last_delta example_position)
  have H2: "hedge_size example_bs (venue_positions (market (example_world 99 0))) ''NVDA''
        example_options 100 (clock (example_world 99 0)) = - 297 / 5"
    by (simp add: hedge_size_def example_last_delta example_position)
  have D1: "aggregate_delta example_bs (venue_positions (market (example_world 4 (-20)))) ''NVDA''
      example_options 100 (clock (example_world 4 (-20))) < 0"
    by (simp add: example_aggregate_delta)
  have D2: "aggregate_delta example_bs (venue_positions (market (example_world 99 0))) ''NVDA''
      example_options 100 (clock (example_world 99 0)) > 0"
    by (simp add: example_aggregate_delta)
  have c: "calls (example_world 4 (-20)) = []" "calls (example_world 99 0) = []"
    by (simp_all add: example_world_def)
  from buy [THEN conjunct2, THEN conjunct1, THEN mp, OF D1]
  have 1: "calls (snd (hedge_delta_position example_bs ''NVDA'' example_options 100 (example_world 4 (-20))))
       = [InsertOrder ''NVDA'' (Finite 101) (PyInt 2) ''bid'' ''ioc'']"
    by (auto simp: H1 c py_int_def)
  from sell [THEN conjunct2, THEN conjunct2, THEN conjunct1, THEN mp, OF D2]
  have 2: "calls (snd (hedge_delta_position example_bs ''NVDA'' example_options 100 (example_world 99 0)))
       = [InsertOrder ''NVDA'' (Finite 100) (PyInt 59) ''ask'' ''ioc'']"
    by (auto simp: H2 c py_int_def)
  from D1 buy [THEN conjunct1] 1 D2 2 show ?thesis by blast
qed

text \<open>
  C4, as the specification states it, fails in both branches. With 99 shares and a last
  option of delta 3/5 the hypothetical hedge size is H = -59.4, so |position - H| = 158.4
  lies outside [1, 100], and yet the hedge sells 59 shares, because the selling branch
  tests position + H = 39.6. With -99 shares H = 59.4 and |position - H| = 158.4 again,
  and yet the buy order goes out with the non-zero volume -59, because the buying branch
  tests |position| - H = 39.6.
\<close>

theorem hedge_delta_position_clamp_counterexample:
  "venue_positions (market (example_world 99 0)) ''NVDA'' = Some 99
   \<and> hedge_size example_bs (venue_positions (market (example_world 99 0))) ''NVDA''
        example_options 100 (clock (example_world 99 0)) = - 297 / 5
   \<and> \<not> (1 \<le> \<bar>real_of_int 99 - (- 297 / 5)\<bar> \<and> \<bar>real_of_int 99 - (- 297 / 5)\<bar> \<le> 100)
   \<and> calls (snd (hedge_delta_position example_bs ''NVDA'' example_options 100 (example_world 99 0)))
       = [InsertOrder ''NVDA'' (Finite 100) (PyInt 59) ''ask'' ''ioc'']
   \<and> venue_positions (market (example_world (- 99) 0)) ''NVDA'' = Some (- 99)
   \<and> hedge_size example_bs (venue_positions (market (example_world (- 99) 0))) ''NVDA''
        example_options 100 (clock (example_world (- 99) 0)) = 297 / 5
   \<and> \<not> (1 \<le> \<bar>real_of_int (- 99) - 297 / 5\<bar> \<and> \<bar>real_of_int (- 99) - 297 / 5\<bar> \<le> 100)
   \<and> calls (snd (hedge_delta_position example_bs ''NVDA'' example_options 100 (example_world (- 99) 0)))
       = [InsertOrder ''NVDA'' (Finite 101) (PyInt (- 59)) ''bid'' ''ioc'']"
proof -
  from hedge_delta_position_ok [OF example_position [of 99 0] example_options_nonempty
          example_chain_ok [of 99 0] example_stock_book [of 99 0] example_bids example_asks,
          where bs = example_bs and sv = 100]
  have sell: "calls (snd (hedge_delta_position example_bs ''NVDA'' example_options 100 (example_world 99 0)))
       = calls (example_world 99 0) @ [InsertOrder ''NVDA'' (Finite 100) (PyInt 59) ''ask'' ''ioc'']"
    by (auto simp: same_but_out_def sent_def delta_hedge_calls_def hedge_size_def
        example_aggregate_delta example_last_delta py_int_def example_position)
  from hedge_delta_position_ok [OF example_position [of "-99" 0] example_options_nonempty
          example_chain_ok [of "-99" 0] example_stock_book [of "-99" 0] example_bids example_asks,
          where bs = example_bs and sv = 100]
  have buy: "calls (snd (hedge_delta_position example_bs ''NVDA'' example_options 100 (example_world (- 99) 0)))
       = calls (example_world (- 99) 0) @ [InsertOrder ''NVDA'' (Finite 101) (PyInt (- 59)) ''bid'' ''ioc'']"
    by (auto simp: same_but_out_def sent_def delta_hedge_calls_def hedge_size_def
        example_aggregate_delta example_last_delta py_int_def example_position)
  from sell buy show ?thesis
    by (simp add: hedge_size_def example_last_delta example_position)
       (simp add: example_world_def)
qed

text \<open>
  C4, amended. With H = - position(stock) * BS\_delta(last option of the chain): when the
  aggregate delta is negative the buy order's volume is -int(H) if
  1 <= |position(stock)| - H <= 100 and zero otherwise; when it is positive the sell
  order's volume is -int(H) if 1 <= position(stock) + H <= 100 and zero otherwise. A
  violated bound forces the volume to zero (the order is still sent); nothing is clipped.
\<close>

theorem hedge_delta_position_clamp:
  assumes "venue_positions (market w) stock_id = Some P"
    and "options \<noteq> []"
    and "chain_ok (venue_positions (market w)) options"
    and "venue_books (market w) stock_id = Some book"
    and "bids book = b # bs'"
    and "asks book = a # as'"
  shows "let H = - real_of_int P * BS_delta_of bs sv (clock w) (snd (last options));
             D = aggregate_delta bs (venue_positions (market w)) stock_id options sv (clock w);
             w' = snd (hedge_delta_position bs stock_id options sv w)
         in (D < 0 \<longrightarrow>
               calls w' = calls w @
                 [InsertOrder stock_id (Finite (level_price a))
                    (PyInt (if 1 \<le> \<bar>real_of_int P\<bar> - H \<and> \<bar>real_of_int P\<bar> - H \<le> 100
                            then - py_int H else 0))
                    ''bid'' ''ioc''])
          \<and> (D > 0 \<longrightarrow>
               calls w' = calls w @
                 [InsertOrder stock_id (Finite (level_price b))
                    (PyInt (if 1 \<le> real_of_int P + H \<and> real_of_int P + H \<le> 100
                            then - py_int H else 0))
                    ''ask'' ''ioc''])"
  using hedge_delta_position_ok [OF assms, of bs sv] assms(1)
  by (auto simp: same_but_out_def sent_def delta_hedge_calls_def hedge_size_def Let_def py_int_def)

text \<open>
  With 99 shares the selling bound holds and 59 shares are sold; with one share and one
  call the bound fails (1 - 0.6 < 1) and the order goes out with volume zero.
\<close>

theorem hedge_delta_position_clamp_witness:
  "aggregate_delta example_bs (venue_positions (market (example_world 99 0))) ''NVDA''
      example_options 100 (clock (example_world 99 0)) > 0
   \<and> calls (snd (hedge_delta_position example_bs ''NVDA'' example_options 100 (example_world 99 0)))
       = [InsertOrder ''NVDA'' (Finite 100) (PyInt 59) ''ask'' ''ioc'']
   \<and> aggregate_delta example_bs (venue_positions (market (example_world 1 1))) ''NVDA''
      example_options 100 (clock (example_world 1 1)) > 0
   \<and> calls (snd (hedge_delta_position example_bs ''NVDA'' example_options 100 (example_world 1 1)))
       = [InsertOrder ''NVDA'' (Finite 100) (PyInt 0) ''ask'' ''ioc'']"
  using hedge_delta_position_clamp [OF example_position [of 99 0] example_options_nonempty
          example_chain_ok [of 99 0] example_stock_book [of 99 0] example_bids example_asks,
          where bs = example_bs and sv = 100]
        hedge_delta_position_clamp [OF example_position [of 1 1] example_options_nonempty
          example_chain_ok [of 1 1] example_stock_book [of 1 1] example_bids example_asks,
          where bs = example_bs and sv = 100]
  by (simp add: example_aggregate_delta example_last_delta Let_def py_int_def)
     (simp add: example_world_def)

text \<open>
  C10. On an empty option chain \<open>hedge_delta_position\<close> always fails, and before it has
  sent anything: the loop never binds \<open>option\<close>, so with a stock position entry (whatever
  its value, and that value is then the whole aggregate delta) the statement computing the
  hedge size raises on the unbound loop variable; without one the first position lookup
  already raises. The venue is left untouched.
\<close>

theorem hedge_delta_position_empty_chain:
  "fst (hedge_delta_position bs stock_id [] sv w)
     = (case venue_positions (market w) stock_id of
          None \<Rightarrow> Inl (KeyError stock_id)
        | Some P \<Rightarrow> Inl (UnboundLocalError ''option''))
   \<and> calls (snd (hedge_delta_position bs stock_id [] sv w)) = calls w
   \<and> market (snd (hedge_delta_position bs stock_id [] sv w)) = market w
   \<and> aggregate_delta bs (venue_positions (market w)) stock_id [] sv (clock w)
       = real_of_int (the (venue_positions (market w) stock_id))"
  by (simp add: hedge_delta_position_def and_then_def get_positions_def getitem_def ret_def
      raise_def py_print_def loop_variable_option_def aggregate_delta_def split: option.split)

subsection \<open>The quote manager and the midpoint\<close>

lemma print_trades_ok: "\<exists>w'. print_trades option_id trades w = (Inr (), w') \<and> same_but_out w w'"
proof (induction trades arbitrary: w)
  case Nil
  then show ?case by (simp add: ret_def same_but_out_refl)
next
  case (Cons t trades)
  let ?w = "w\<lparr>out := out w @
     [(''- Last period, traded {trade.volume} lots in {option_id} at price {trade.price:.2f}, side {trade.side}.'',
       [VInt (trade_volume t), VStr option_id, VFloat (trade_price t), VStr (trade_side t)])]\<rparr>"
  from Cons [of ?w] obtain w' where
    "print_trades option_id trades ?w = (Inr (), w')" and "same_but_out ?w w'" by blast
  then show ?case
    by (simp add: and_then_def py_print_def same_but_out_def)
qed

lemma delete_orders_ok: "fst (delete_orders option_id orders w) = Inr ()"
proof (induction orders arbitrary: w)
  case Nil
  then show ?case by (simp add: ret_def)
next
  case (Cons x orders)
  obtain order_id order where x: "x = (order_id, order)" by (cases x)
  show ?case
    by (simp add: x and_then_def py_print_def delete_order_def send_def Cons)
qed

lemma pull_old_orders_ok: "fst (pull_old_orders option_id w) = Inr ()"
proof -
  let ?w = "w\<lparr>market := (market w)\<lparr>venue_new_trades := (venue_new_trades (market w))(option_id := [])\<rparr>\<rparr>"
  obtain w' where "print_trades option_id (venue_new_trades (market w) option_id) ?w = (Inr (), w')"
    using print_trades_ok by blast
  then show ?thesis
    by (simp add: pull_old_orders_def and_then_def poll_new_trades_def get_outstanding_orders_def
        delete_orders_ok)
qed


lemma double_0_10_pos: "0 < double_0_10"
  by (simp add: double_0_10_def)

lemma example_sub: "float_sub (105 / 2) (5 / 4) = Finite (205 / 4)"
  using to_double_eq [of "205 / 4" 5]
  by (simp add: float_sub_def two_to_def round_half_even_def Let_def)

lemma example_add: "float_add (105 / 2) (5 / 4) = Finite (215 / 4)"
  using to_double_eq [of "215 / 4" 5]
  by (simp add: float_add_def two_to_def round_half_even_def Let_def)

lemma example_bid_price:
  "round_down_to_tick (Finite (205 / 4)) (Finite double_0_10)
     = Inr (Finite (3602879701896397 / 70368744177664))"
proof -
  have q: "to_double (205 / 4 / double_0_10) = Finite (1025 / 2)"
    using to_double_eq [of "205 / 4 / double_0_10" 9]
    by (simp add: double_0_10_def two_to_def round_half_even_def Let_def)
  have n: "to_double 512 = Finite 512"
    using to_double_eq [of 512 9]
    by (simp add: two_to_def round_half_even_def Let_def)
  have d: "to_double (512 * double_0_10) = Finite (3602879701896397 / 70368744177664)"
    using to_double_eq [of "512 * double_0_10" 5]
    by (simp add: double_0_10_def two_to_def round_half_even_def Let_def)
  from double_0_10_pos q n d show ?thesis
    by (simp add: round_down_to_tick_def float_truediv_def py_floor_def float_of_int_def
        float_mul_def)
qed

lemma example_ask_price:
  "round_up_to_tick (Finite (215 / 4)) (Finite double_0_10)
     = Inr (Finite (7571676873516647 / 140737488355328))"
proof -
  have q: "to_double (215 / 4 / double_0_10) = Finite (1075 / 2)"
    using to_double_eq [of "215 / 4 / double_0_10" 9]
    by (simp add: double_0_10_def two_to_def round_half_even_def Let_def)
  have n: "to_double 538 = Finite 538"
    using to_double_eq [of 538 9]
    by (simp add: two_to_def round_half_even_def Let_def)
  have d: "to_double (538 * double_0_10) = Finite (7571676873516647 / 140737488355328)"
    using to_double_eq [of "538 * double_0_10" 5]
    by (simp add: double_0_10_def two_to_def round_half_even_def Let_def)
  from double_0_10_pos q n d show ?thesis
    by (simp add: round_up_to_tick_def float_truediv_def py_ceil_def float_of_int_def
        float_mul_def)
qed




lemma pull_old_orders_returns:
  "\<exists>w1. pull_old_orders option_id w = (Inr (), w1)"
  using pull_old_orders_ok [of option_id w] by (cases "pull_old_orders option_id w") auto

lemma update_quotes_ok:
  assumes P: "venue_positions (market (snd (pull_old_orders option_id w))) option_id = Some P"
    and down: "round_down_to_tick (float_sub tp credit) (Finite tick_size) = Inr bid_price"
    and up: "round_up_to_tick (float_add tp credit) (Finite tick_size) = Inr ask_price"
  shows "fst (update_quotes option_id tp credit V L tick_size w) = Inr ()
     \<and> calls (snd (update_quotes option_id tp credit V L tick_size w))
        = calls (snd (pull_old_orders option_id w))
          @ (if min V (L - P) > 0
             then [InsertOrder option_id bid_price (PyInt (min V (L - P))) ''bid'' ''limit'']
             else [])
          @ (if min V (L + P) > 0
             then [InsertOrder option_id ask_price (PyInt (min V (L + P))) ''ask'' ''limit'']
             else [])"
proof -
  obtain w1 where w1: "pull_old_orders option_id w = (Inr (), w1)"
    using pull_old_orders_returns by blast
  with P have P1: "venue_positions (market w1) option_id = Some P" by simp
  show ?thesis
    using P1
    by (simp add: update_quotes_def and_then_def w1 lift_def down up
        get_positions_def getitem_def ret_def Let_def py_print_def
        insert_order_def send_def)
qed

lemma update_quotes_raises:
  assumes "round_down_to_tick (float_sub tp credit) (Finite tick_size) = Inl e
           \<or> (\<exists>bid_price. round_down_to_tick (float_sub tp credit) (Finite tick_size) = Inr bid_price)
              \<and> round_up_to_tick (float_add tp credit) (Finite tick_size) = Inl e"
  shows "fst (update_quotes option_id tp credit V L tick_size w) = Inl e
     \<and> calls (snd (update_quotes option_id tp credit V L tick_size w))
        = calls (snd (pull_old_orders option_id w))"
proof -
  obtain w1 where w1: "pull_old_orders option_id w = (Inr (), w1)"
    using pull_old_orders_returns by blast
  from assms show ?thesis
    by (auto simp: update_quotes_def and_then_def w1 lift_def)
qed

text \<open>
  C1. For every target volume V, limit L and position P read at decision time (after the
  old orders have been pulled): when the two tick roundings return, \<open>update_quotes\<close>
  returns normally, computes bid\_volume = min(V, L - P) and ask\_volume = min(V, L + P),
  and submits exactly the limit bid when bid\_volume > 0 followed by the limit ask when
  ask\_volume > 0, at the two rounded prices; when a rounding raises, the call raises the
  same exception and submits nothing. So every submitted bid volume lies in [0, V] with
  P + volume <= L and every submitted ask volume lies in [0, V] with P - volume >= -L.
\<close>

theorem update_quotes_volumes:
  assumes "venue_positions (market (snd (pull_old_orders option_id w))) option_id = Some P"
  shows "let bid_volume = min V (L - P);
             ask_volume = min V (L + P);
             submitted = drop (length (calls (snd (pull_old_orders option_id w))))
                           (calls (snd (update_quotes option_id tp credit V L tick_size w)))
         in (case round_down_to_tick (float_sub tp credit) (Finite tick_size) of
               Inl e \<Rightarrow>
                 fst (update_quotes option_id tp credit V L tick_size w) = Inl e \<and> submitted = []
             | Inr bid_price \<Rightarrow>
                 (case round_up_to_tick (float_add tp credit) (Finite tick_size) of
                    Inl e \<Rightarrow>
                      fst (update_quotes option_id tp credit V L tick_size w) = Inl e
                      \<and> submitted = []
                  | Inr ask_price \<Rightarrow>
                      fst (update_quotes option_id tp credit V L tick_size w) = Inr ()
                      \<and> submitted =
                          (if bid_volume > 0
                           then [InsertOrder option_id bid_price (PyInt bid_volume) ''bid'' ''limit'']
                           else [])
                          @ (if ask_volume > 0
                             then [InsertOrder option_id ask_price (PyInt ask_volume) ''ask'' ''limit'']
                             else [])))
          \<and> (\<forall>i p v. InsertOrder i p (PyInt v) ''bid'' ''limit'' \<in> set submitted \<longrightarrow>
                 v = bid_volume \<and> 0 \<le> v \<and> v \<le> V \<and> P + v \<le> L)
          \<and> (\<forall>i p v. InsertOrder i p (PyInt v) ''ask'' ''limit'' \<in> set submitted \<longrightarrow>
                 v = ask_volume \<and> 0 \<le> v \<and> v \<le> V \<and> P - v \<ge> - L)"
proof (cases "round_down_to_tick (float_sub tp credit) (Finite tick_size)")
  case (Inl e)
  with update_quotes_raises [of tp credit tick_size e option_id V L w] show ?thesis
    by (simp add: Let_def)
next
  case down: (Inr bid_price)
  show ?thesis
  proof (cases "round_up_to_tick (float_add tp credit) (Finite tick_size)")
    case (Inl e)
    with down update_quotes_raises [of tp credit tick_size e option_id V L w] show ?thesis
      by (simp add: Let_def)
  next
    case up: (Inr ask_price)
    from update_quotes_ok [OF assms down up, of V L] show ?thesis
      by (auto simp: Let_def down up)
  qed
qed

text \<open>
  Position 98, limit 100, target volume 5, theoretical price 52.5, credit 1.25 and the tick
  0.10: a bid for 2 at 51.2 and an ask for 5 at 53.800000000000004.
\<close>

theorem update_quotes_volumes_witness:
  "venue_positions (market (snd (pull_old_orders ''NVDA_C'' (example_world 0 98)))) ''NVDA_C'' = Some 98
   \<and> fst (update_quotes ''NVDA_C'' (105 / 2) (5 / 4) 5 100 double_0_10 (example_world 0 98)) = Inr ()
   \<and> drop (length (calls (snd (pull_old_orders ''NVDA_C'' (example_world 0 98)))))
        (calls (snd (update_quotes ''NVDA_C'' (105 / 2) (5 / 4) 5 100 double_0_10 (example_world 0 98))))
       = [InsertOrder ''NVDA_C'' (Finite (3602879701896397 / 70368744177664)) (PyInt 2) ''bid'' ''limit'',
          InsertOrder ''NVDA_C'' (Finite (7571676873516647 / 140737488355328)) (PyInt 5) ''ask'' ''limit'']"
proof -
  have pull: "pull_old_orders ''NVDA_C'' (example_world 0 98) = (Inr (), example_world 0 98)"
    by (simp add: pull_old_orders_def and_then_def poll_new_trades_def get_outstanding_orders_def
        example_world_def ret_def fun_upd_idem)
  have P: "venue_positions (market (snd (pull_old_orders ''NVDA_C'' (example_world 0 98)))) ''NVDA_C''
             = Some 98"
    by (simp add: pull) (simp add: example_world_def)
  note inst = update_quotes_volumes [OF P, where tp = "105 / 2" and credit = "5 / 4"
      and V = 5 and L = 100 and tick_size = double_0_10, unfolded Let_def, THEN conjunct1,
      unfolded example_sub example_add example_bid_price example_ask_price]
  from inst have ok: "fst (update_quotes ''NVDA_C'' (105 / 2) (5 / 4) 5 100 double_0_10 (example_world 0 98)) = Inr ()"
    and sub: "drop (length (calls (snd (pull_old_orders ''NVDA_C'' (example_world 0 98)))))
        (calls (snd (update_quotes ''NVDA_C'' (105 / 2) (5 / 4) 5 100 double_0_10 (example_world 0 98))))
       = [InsertOrder ''NVDA_C'' (Finite (3602879701896397 / 70368744177664)) (PyInt 2) ''bid'' ''limit'',
          InsertOrder ''NVDA_C'' (Finite (7571676873516647 / 140737488355328)) (PyInt 5) ''ask'' ''limit'']"
    by simp_all
  from P ok sub show ?thesis by blast
qed

















lemma get_midpoint_value_eq:
  "get_midpoint_value instrument_id w =
     (Inr (case venue_books (market w) instrument_id of
             None \<Rightarrow> None
           | Some book \<Rightarrow>
               (case bids book of
                  [] \<Rightarrow> None
                | b # _ \<Rightarrow> (case asks book of
                             [] \<Rightarrow> None
                           | a # _ \<Rightarrow> Some ((level_price b + level_price a) / 2)))), w)"
  by (simp add: get_midpoint_value_def and_then_def get_last_price_book_def ret_def
      split: option.split list.split)

text \<open>
  C7. The midpoint reader returns the average of the best bid and best ask prices when
  the book exists and both sides are non-empty, and None exactly when the book is missing
  or a side is empty. When it returns None, the pass through the trade loop only prints
  its banner and the empty-book message and sleeps 4 seconds: it sends no call, assigns
  no theoretical value, does not depend on the pricing module, ends normally, and the
  loop goes on with the next pass.
\<close>

theorem midpoint_unavailable_skips_cycle:
  "(venue_books (market w) STOCK_ID = Some book \<and> bids book = b # bs' \<and> asks book = a # as' \<longrightarrow>
      get_midpoint_value STOCK_ID w = (Inr (Some ((level_price b + level_price a) / 2)), w))
   \<and> (get_midpoint_value STOCK_ID w = (Inr None, w))
       = (venue_books (market w) STOCK_ID = None
          \<or> bids (the (venue_books (market w) STOCK_ID)) = []
          \<or> asks (the (venue_books (market w) STOCK_ID)) = [])
   \<and> (get_midpoint_value STOCK_ID w = (Inr None, w) \<longrightarrow>
        trade_loop_iteration bs STOCK_ID options w =
          (Inr (),
           w\<lparr>out := out w @
                [([], []),
                 (''-----------------------------------------------------------------'', []),
                 (''TRADE LOOP ITERATION ENTERED AT {str(dt.datetime.now()):18s} UTC.'',
                    [VDatetime (clock w)]),
                 (''-----------------------------------------------------------------'', []),
                 (''Empty stock order book on bid or ask-side, or both, unable to update option prices.'', [])],
             clock := clock w + 4000000\<rparr>)
        \<and> trade_loop bs STOCK_ID options (Suc n) w =
            trade_loop bs STOCK_ID options n
              (snd (trade_loop_iteration bs STOCK_ID options w)))"
proof (intro conjI impI)
  assume "venue_books (market w) STOCK_ID = Some book \<and> bids book = b # bs' \<and> asks book = a # as'"
  then show "get_midpoint_value STOCK_ID w = (Inr (Some ((level_price b + level_price a) / 2)), w)"
    by (simp add: get_midpoint_value_eq)
next
  show "(get_midpoint_value STOCK_ID w = (Inr None, w))
       = (venue_books (market w) STOCK_ID = None
          \<or> bids (the (venue_books (market w) STOCK_ID)) = []
          \<or> asks (the (venue_books (market w) STOCK_ID)) = [])"
    by (auto simp: get_midpoint_value_eq split: option.split list.split)
next
  assume none: "get_midpoint_value STOCK_ID w = (Inr None, w)"
  have mid: "\<And>x. get_midpoint_value STOCK_ID (w\<lparr>out := x\<rparr>) = (Inr None, w\<lparr>out := x\<rparr>)"
    using none by (simp add: get_midpoint_value_eq)
  show iter: "trade_loop_iteration bs STOCK_ID options w =
          (Inr (),
           w\<lparr>out := out w @
                [([], []),
                 (''-----------------------------------------------------------------'', []),
                 (''TRADE LOOP ITERATION ENTERED AT {str(dt.datetime.now()):18s} UTC.'',
                    [VDatetime (clock w)]),
                 (''-----------------------------------------------------------------'', []),
                 (''Empty stock order book on bid or ask-side, or both, unable to update option prices.'', [])],
             clock := clock w + 4000000\<rparr>)"
    by (simp add: trade_loop_iteration_def and_then_def py_print_def datetime_now_def mid
        time_sleep_def)
  show "trade_loop bs STOCK_ID options (Suc n) w =
            trade_loop bs STOCK_ID options n
              (snd (trade_loop_iteration bs STOCK_ID options w))"
    by (simp add: and_then_def iter)
qed

text \<open>With no bid in the stock's book the pass is skipped; with both sides the midpoint is 100.5.\<close>

theorem midpoint_unavailable_skips_cycle_witness:
  "get_midpoint_value ''NVDA'' (example_world 0 0) = (Inr (Some (201 / 2)), example_world 0 0)
   \<and> get_midpoint_value ''NVDA'' empty_bids_world = (Inr None, empty_bids_world)
   \<and> fst (trade_loop_iteration example_bs ''NVDA'' example_options empty_bids_world) = Inr ()
   \<and> calls (snd (trade_loop_iteration example_bs ''NVDA'' example_options empty_bids_world)) = []
   \<and> clock (snd (trade_loop_iteration example_bs ''NVDA'' example_options empty_bids_world)) = 4000000
   \<and> trade_loop example_bs ''NVDA'' example_options (Suc 0) empty_bids_world
       = (Inr (), snd (trade_loop_iteration example_bs ''NVDA'' example_options empty_bids_world))"
proof -
  have book: "venue_books (market (example_world 0 0)) ''NVDA'' = Some example_book
              \<and> bids example_book = \<lparr>level_price = 100, level_volume = 10\<rparr> # []
              \<and> asks example_book = \<lparr>level_price = 101, level_volume = 10\<rparr> # []"
    by (simp add: example_stock_book example_bids example_asks)
  have none: "get_midpoint_value ''NVDA'' empty_bids_world = (Inr None, empty_bids_world)"
    by (simp add: get_midpoint_value_eq empty_bids_world_def)
  note a = midpoint_unavailable_skips_cycle [where w = "example_world 0 0" and STOCK_ID = "''NVDA''",
      THEN conjunct1, THEN mp, OF book]
  note b = midpoint_unavailable_skips_cycle [where w = empty_bids_world and STOCK_ID = "''NVDA''"
      and bs = example_bs and options = example_options and n = 0,
      THEN conjunct2, THEN conjunct2, THEN mp, OF none]
  have c: "calls empty_bids_world = []" "clock empty_bids_world = 0"
    by (simp_all add: empty_bids_world_def example_world_def)
  from a have "get_midpoint_value ''NVDA'' (example_world 0 0)
                 = (Inr (Some (201 / 2)), example_world 0 0)"
    by simp
  with none b c show ?thesis
    by (simp add: ret_def)
qed

subsection \<open>The gamma hedge\<close>

lemma gamma_loop_ok:
  "chain_ok positions options \<Longrightarrow> g_theoretical_value w = Some tv \<Longrightarrow>
   \<exists>w'. gamma_loop bs positions options T w =
          (Inr (T + (\<Sum>(option_id, option) \<leftarrow> options.
                  BS_gamma_of bs tv (clock w) option * real_of_int (the (positions option_id)))), w')
        \<and> same_but_out w w'"
proof (induction options arbitrary: T w)
  case Nil
  then show ?case by (simp add: ret_def same_but_out_refl)
next
  case (Cons x options)
  obtain option_id option where x: "x = (option_id, option)" by (cases x)
  from Cons.prems x obtain position where
    pos: "positions option_id = Some position"
    and rest: "chain_ok positions options"
    by (auto simp: chain_ok_def)
  let ?g = "BS_gamma_of bs tv (clock w) option"
  let ?T = "T + ?g * real_of_int position"
  let ?w = "w\<lparr>out := out w @
      [(''- The current position in option {option_id} is {position}.'',
          [VStr option_id, VInt position]),
       (''- The current gamma position in option {option_id} is {Gamma_position}.'',
          [VStr option_id, VFloat (?g * real_of_int position)]),
       (''- The current total aggregate gamma position is {Total_aggregate_gamma_position}.'',
          [VFloat ?T])]\<rparr>"
  have step: "gamma_loop bs positions ((option_id, option) # options) T w
                = gamma_loop bs positions options ?T ?w"
    using pos Cons.prems(2)
    by (simp add: and_then_def getitem_def ret_def py_print_def read_theoretical_value_def
        current_time_to_date Let_def BS_gamma_of_def)
  have tv: "g_theoretical_value ?w = Some tv" using Cons.prems(2) by simp
  from Cons.IH [OF rest tv, of ?T] obtain w' where
    "gamma_loop bs positions options ?T ?w =
       (Inr (?T + (\<Sum>(option_id, option) \<leftarrow> options.
                  BS_gamma_of bs tv (clock ?w) option * real_of_int (the (positions option_id)))), w')"
    and "same_but_out ?w w'" by blast
  then show ?case
    using pos by (simp add: step x same_but_out_def add.assoc del: gamma_loop.simps)
qed

lemma foldl_quiet:
  "quiet_venue r stock_id \<Longrightarrow>
   venue_positions (foldl (\<lambda>m c. r c m) m cs) = venue_positions m
   \<and> venue_books (foldl (\<lambda>m c. r c m) m cs) stock_id = venue_books m stock_id"
  by (induction cs arbitrary: m) (simp_all add: quiet_venue_def)

lemma sent_quiet:
  assumes "quiet_venue (react w) stock_id"
  shows "venue_positions (market (sent cs w)) = venue_positions (market w)"
    and "venue_books (market (sent cs w)) stock_id = venue_books (market w) stock_id"
  using foldl_quiet [OF assms, of "market w" cs] by (simp_all add: sent_def)

lemma sent_fields:
  "react (sent cs w) = react w" "calls (sent cs w) = calls w @ cs"
  "clock (sent cs w) = clock w" "g_theoretical_value (sent cs w) = g_theoretical_value w"
  by (simp_all add: sent_def)

lemma sent_Cons:
  "sent (c # cs) w = sent cs (w\<lparr>market := react w c (market w), calls := calls w @ [c]\<rparr>)"
  by (simp add: sent_def)

lemma gamma_order_loop_ok:
  assumes "g_theoretical_value w = Some tv"
    and "venue_books (market w) stock_id = Some book"
    and "bids book = b # bs'"
    and "asks book = a # as'"
    and "list_all (\<lambda>(option_id, option). BS_gamma_of bs tv (clock w) option \<noteq> 0) options"
    and "quiet_venue (react w) stock_id"
  shows "gamma_order_loop bs stock_id G options w =
           (Inr (), sent (gamma_hedge_calls bs G tv (clock w) (level_price a) options) w)"
  using assms
proof (induction options arbitrary: w)
  case Nil
  then show ?case by (simp add: ret_def gamma_hedge_calls_def sent_def)
next
  case (Cons x options)
  obtain option_id option where x: "x = (option_id, option)" by (cases x)
  let ?c = "InsertOrder option_id (Finite (level_price a))
              (PyFloat (G / BS_gamma_of bs tv (clock w) option)) ''ask'' ''limit''"
  let ?w = "w\<lparr>market := react w ?c (market w), calls := calls w @ [?c]\<rparr>"
  from Cons.prems(5) x have nz: "BS_gamma_of bs tv (clock w) option \<noteq> 0"
    and rest: "list_all (\<lambda>(option_id, option). BS_gamma_of bs tv (clock w) option \<noteq> 0) options"
    by simp_all
  have step: "gamma_order_loop bs stock_id G ((option_id, option) # options) w
                = gamma_order_loop bs stock_id G options ?w"
    using Cons.prems(1-4) nz
    by (simp add: and_then_def read_theoretical_value_def current_time_to_date Let_def
        ret_def get_last_price_book_def book_bids_def book_asks_def first_price_def
        insert_order_def send_def BS_gamma_of_def)
  have book': "venue_books (market ?w) stock_id = Some book"
    using Cons.prems(2,6) by (simp add: quiet_venue_def)
  have "gamma_order_loop bs stock_id G options ?w =
           (Inr (), sent (gamma_hedge_calls bs G tv (clock ?w) (level_price a) options) ?w)"
    using Cons.prems rest book'
    by (intro Cons.IH) simp_all
  then show ?case
    by (simp add: step x gamma_hedge_calls_def sent_Cons del: gamma_order_loop.simps)
qed

lemma hedge_gamma_position_ok:
  assumes P: "venue_positions (market w) stock_id = Some P"
    and ne: "options \<noteq> []"
    and ok: "chain_ok (venue_positions (market w)) options"
    and book: "venue_books (market w) stock_id = Some book"
    and bids: "bids book = b # bs'"
    and asks: "asks book = a # as'"
    and tv: "g_theoretical_value w = Some tv"
    and nz: "list_all (\<lambda>(option_id, option). BS_gamma_of bs tv (clock w) option \<noteq> 0) options"
    and quiet: "quiet_venue (react w) stock_id"
  shows "\<exists>w'. hedge_gamma_position bs stock_id options sv w = (Inr (), w')
          \<and> calls w' = calls w
               @ delta_hedge_calls stock_id
                   (aggregate_delta bs (venue_positions (market w)) stock_id options sv (clock w)) P
                   (hedge_size bs (venue_positions (market w)) stock_id options sv (clock w))
                   (level_price b) (level_price a)
               @ gamma_hedge_calls bs
                   (aggregate_gamma bs (venue_positions (market w)) stock_id options tv (clock w))
                   tv (clock w) (level_price a) options
               @ delta_hedge_calls stock_id
                   (aggregate_delta bs (venue_positions (market w)) stock_id options sv (clock w)) P
                   (hedge_size bs (venue_positions (market w)) stock_id options sv (clock w))
                   (level_price b) (level_price a)"
proof -
  let ?ps = "venue_positions (market w)"
  let ?D = "delta_hedge_calls stock_id (aggregate_delta bs ?ps stock_id options sv (clock w)) P
              (hedge_size bs ?ps stock_id options sv (clock w)) (level_price b) (level_price a)"
  let ?G = "aggregate_gamma bs ?ps stock_id options tv (clock w)"
  let ?GC = "gamma_hedge_calls bs ?G tv (clock w) (level_price a) options"
  \<comment> \<open>the first delta hedge\<close>
  from hedge_delta_position_ok [OF P ne ok book bids asks, of bs sv] obtain w1 where
    d1: "hedge_delta_position bs stock_id options sv w = (Inr (), w1)"
    and s1: "same_but_out (sent ?D w) w1" by blast
  from s1 have w1: "venue_positions (market w1) = ?ps"
    "venue_books (market w1) stock_id = Some book" "react w1 = react w"
    "calls w1 = calls w @ ?D" "clock w1 = clock w" "g_theoretical_value w1 = Some tv"
    using sent_quiet [OF quiet, of ?D] book tv
    by (simp_all add: same_but_out_def sent_fields)
  \<comment> \<open>the aggregation loop\<close>
  from ok have ok1: "chain_ok (venue_positions (market w1)) options" by (simp add: w1)
  from gamma_loop_ok [OF ok1 w1(6), of bs "real_of_int P"] obtain w2 where
    g: "gamma_loop bs (venue_positions (market w1)) options (real_of_int P) w1 = (Inr ?G, w2)"
    and s2: "same_but_out w1 w2"
    by (auto simp: aggregate_gamma_def w1 P)
  let ?w2 = "w2\<lparr>out := out w2 @
      [(''- The current position in the stock {stock_id} is {stock_position}.'',
        [VStr stock_id, VInt P])]\<rparr>"
  from s2 have w2: "venue_positions (market ?w2) = ?ps"
    "venue_books (market ?w2) stock_id = Some book" "react ?w2 = react w"
    "calls ?w2 = calls w @ ?D" "clock ?w2 = clock w" "g_theoretical_value ?w2 = Some tv"
    by (simp_all add: same_but_out_def w1)
  \<comment> \<open>the order loop\<close>
  have nz2: "list_all (\<lambda>(option_id, option). BS_gamma_of bs tv (clock ?w2) option \<noteq> 0) options"
    using nz by (simp add: w2)
  have quiet2: "quiet_venue (react ?w2) stock_id" using quiet by (simp add: w2)
  have o: "gamma_order_loop bs stock_id ?G options ?w2 = (Inr (), sent ?GC ?w2)"
    using gamma_order_loop_ok [OF w2(6) w2(2) bids asks nz2 quiet2, of ?G] by (simp add: w2)
  \<comment> \<open>the second delta hedge\<close>
  let ?w3 = "sent ?GC ?w2"
  have w3: "venue_positions (market ?w3) = ?ps"
    "venue_books (market ?w3) stock_id = Some book"
    "calls ?w3 = calls w @ ?D @ ?GC" "clock ?w3 = clock w"
    using sent_quiet [OF quiet2, of ?GC] w2 by (simp_all add: sent_fields)
  have P3: "venue_positions (market ?w3) stock_id = Some P" using P by (simp add: w3)
  have ok3: "chain_ok (venue_positions (market ?w3)) options" using ok by (simp add: w3)
  from hedge_delta_position_ok [OF P3 ne ok3 w3(2) bids asks, of bs sv] obtain w4 where
    d2: "hedge_delta_position bs stock_id options sv ?w3 = (Inr (), w4)"
    and s4: "same_but_out (sent ?D ?w3) w4"
    by (auto simp: w3)
  from s2 have c2: "calls w2 = calls w @ ?D" by (simp add: same_but_out_def w1)
  from s4 have c4: "calls w4 = calls w @ ?D @ ?GC @ ?D"
    by (simp add: same_but_out_def sent_fields c2)
  from g have g': "gamma_loop bs ?ps options (real_of_int P) w1 = (Inr ?G, w2)"
    by (simp add: w1)
  have "hedge_gamma_position bs stock_id options sv w = (Inr (), w4)"
    using P
    by (simp add: hedge_gamma_position_def and_then_def d1 get_positions_def getitem_def ret_def
        w1 g' py_print_def o d2)
  with c4 show ?thesis by blast
qed

lemma readyE:
  assumes "ready m stock_id options"
  obtains P book b bs' a as' where "venue_positions m stock_id = Some P"
    and "chain_ok (venue_positions m) options"
    and "venue_books m stock_id = Some book" and "bids book = b # bs'" and "asks book = a # as'"
proof -
  from assms obtain P book where 1: "venue_positions m stock_id = Some P"
    and 2: "chain_ok (venue_positions m) options"
    and 3: "venue_books m stock_id = Some book" and 4: "bids book \<noteq> []" and 5: "asks book \<noteq> []"
    by (auto simp: ready_def split: option.splits)
  from 4 obtain b bs' where 6: "bids book = b # bs'" by (cases "bids book") auto
  from 5 obtain a as' where 7: "asks book = a # as'" by (cases "asks book") auto
  from 1 2 3 6 7 show thesis by (rule that)
qed

lemma foldl_ready:
  "keeps_ready r stock_id options \<Longrightarrow> ready m stock_id options \<Longrightarrow>
   ready (foldl (\<lambda>m c. r c m) m cs) stock_id options"
  by (induction cs arbitrary: m) (simp_all add: keeps_ready_def)

lemma sent_ready:
  "keeps_ready (react w) stock_id options \<Longrightarrow> ready (market w) stock_id options \<Longrightarrow>
   ready (market (sent cs w)) stock_id options"
  by (simp add: sent_def foldl_ready)

lemma same_but_out_sent:
  "same_but_out w w' \<Longrightarrow> same_but_out (sent cs w) (sent cs w')"
  by (simp add: same_but_out_def sent_def)

lemma same_but_out_sym: "same_but_out w w' \<Longrightarrow> same_but_out w' w"
  by (simp add: same_but_out_def)

lemma hedge_delta_position_ready:
  assumes "ready (market w) stock_id options" and "options \<noteq> []"
  shows "\<exists>cs w'. hedge_delta_position bs stock_id options sv w = (Inr (), w')
           \<and> same_but_out (sent cs w) w'
           \<and> (\<forall>v. same_but_out w v \<longrightarrow>
                 (\<exists>v'. hedge_delta_position bs stock_id options sv v = (Inr (), v')
                      \<and> same_but_out (sent cs v) v'))"
proof -
  from assms(1) obtain P book b bs' a as' where
    P: "venue_positions (market w) stock_id = Some P"
    and ok: "chain_ok (venue_positions (market w)) options"
    and book: "venue_books (market w) stock_id = Some book"
    and bids: "bids book = b # bs'" and asks: "asks book = a # as'"
    by (rule readyE)
  let ?cs = "delta_hedge_calls stock_id
               (aggregate_delta bs (venue_positions (market w)) stock_id options sv (clock w)) P
               (hedge_size bs (venue_positions (market w)) stock_id options sv (clock w))
               (level_price b) (level_price a)"
  from hedge_delta_position_ok [OF P assms(2) ok book bids asks, of bs sv] obtain w' where
    1: "hedge_delta_position bs stock_id options sv w = (Inr (), w')"
    and 2: "same_but_out (sent ?cs w) w'" by blast
  have 3: "\<exists>v'. hedge_delta_position bs stock_id options sv v = (Inr (), v')
                      \<and> same_but_out (sent ?cs v) v'" if v: "same_but_out w v" for v
  proof -
    from v have eq: "market v = market w" "clock v = clock w" by (simp_all add: same_but_out_def)
    from P ok book have "venue_positions (market v) stock_id = Some P"
      "chain_ok (venue_positions (market v)) options" "venue_books (market v) stock_id = Some book"
      by (simp_all add: eq)
    from hedge_delta_position_ok [OF this(1) assms(2) this(2) this(3) bids asks, of bs sv]
    show ?thesis by (simp add: eq)
  qed
  from 1 2 3 show ?thesis by blast
qed

lemma gamma_order_loop_sent:
  assumes "g_theoretical_value w = Some tv"
    and "ready (market w) stock_id chain"
    and "list_all (\<lambda>(option_id, option). BS_gamma_of bs tv (clock w) option \<noteq> 0) options"
    and "keeps_ready (react w) stock_id chain"
  shows "gamma_order_loop bs stock_id G options w =
           (Inr (), sent (gamma_calls_from (react w) bs G tv (clock w) stock_id (market w) options) w)"
  using assms
proof (induction options arbitrary: w)
  case Nil
  then show ?case by (simp add: ret_def sent_def)
next
  case (Cons x options)
  obtain option_id option where x: "x = (option_id, option)" by (cases x)
  from Cons.prems(2) obtain P book b bs' a as' where
    book: "venue_books (market w) stock_id = Some book"
    and bids: "bids book = b # bs'" and asks: "asks book = a # as'"
    by (rule readyE)
  then have ask: "best_ask (market w) stock_id = level_price a"
    by (simp add: best_ask_def)
  let ?c = "InsertOrder option_id (Finite (best_ask (market w) stock_id))
              (PyFloat (G / BS_gamma_of bs tv (clock w) option)) ''ask'' ''limit''"
  let ?w = "w\<lparr>market := react w ?c (market w), calls := calls w @ [?c]\<rparr>"
  from Cons.prems(3) x have nz: "BS_gamma_of bs tv (clock w) option \<noteq> 0"
    and rest: "list_all (\<lambda>(option_id, option). BS_gamma_of bs tv (clock w) option \<noteq> 0) options"
    by simp_all
  have step: "gamma_order_loop bs stock_id G ((option_id, option) # options) w
                = gamma_order_loop bs stock_id G options ?w"
    using Cons.prems(1) book bids asks nz
    by (simp add: and_then_def read_theoretical_value_def current_time_to_date Let_def
        ret_def get_last_price_book_def book_bids_def book_asks_def first_price_def
        insert_order_def send_def BS_gamma_of_def ask)
  have ready': "ready (market ?w) stock_id chain"
    using Cons.prems(2,4) by (simp add: keeps_ready_def)
  have "gamma_order_loop bs stock_id G options ?w =
           (Inr (), sent (gamma_calls_from (react ?w) bs G tv (clock ?w) stock_id (market ?w) options) ?w)"
    using Cons.prems rest ready'
    by (intro Cons.IH) simp_all
  then show ?case
    by (simp add: step x sent_Cons del: gamma_order_loop.simps)
qed

lemma hedge_gamma_position_runs:
  assumes ready: "ready (market w) stock_id options"
    and ne: "options \<noteq> []"
    and tv: "g_theoretical_value w = Some tv"
    and nz: "list_all (\<lambda>(option_id, option). BS_gamma_of bs tv (clock w) option \<noteq> 0) options"
    and keeps: "keeps_ready (react w) stock_id options"
  shows "\<exists>D1 D2 w'.
           hedge_gamma_position bs stock_id options sv w = (Inr (), w')
         \<and> calls (snd (hedge_delta_position bs stock_id options sv w)) = calls w @ D1
         \<and> calls (snd (hedge_delta_position bs stock_id options sv
               (sent (gamma_calls_from (react w) bs
                        (aggregate_gamma bs
                           (venue_positions (market (snd (hedge_delta_position bs stock_id options sv w))))
                           stock_id options tv (clock w))
                        tv (clock w) stock_id
                        (market (snd (hedge_delta_position bs stock_id options sv w))) options)
                     (snd (hedge_delta_position bs stock_id options sv w)))))
             = calls w @ D1
               @ gamma_calls_from (react w) bs
                   (aggregate_gamma bs
                      (venue_positions (market (snd (hedge_delta_position bs stock_id options sv w))))
                      stock_id options tv (clock w))
                   tv (clock w) stock_id
                   (market (snd (hedge_delta_position bs stock_id options sv w))) options
               @ D2
         \<and> same_but_out
              (snd (hedge_delta_position bs stock_id options sv
               (sent (gamma_calls_from (react w) bs
                        (aggregate_gamma bs
                           (venue_positions (market (snd (hedge_delta_position bs stock_id options sv w))))
                           stock_id options tv (clock w))
                        tv (clock w) stock_id
                        (market (snd (hedge_delta_position bs stock_id options sv w))) options)
                     (snd (hedge_delta_position bs stock_id options sv w))))) w'"
proof -
  \<comment> \<open>the first delta hedge\<close>
  from hedge_delta_position_ready [OF ready ne, of bs sv] obtain D1 w1 where
    d1: "hedge_delta_position bs stock_id options sv w = (Inr (), w1)"
    and s1: "same_but_out (sent D1 w) w1" by blast
  from s1 have w1m: "market w1 = market (sent D1 w)"
    by (simp add: same_but_out_def)
  from s1 have w1: "react w1 = react w"
    "calls w1 = calls w @ D1" "clock w1 = clock w" "g_theoretical_value w1 = Some tv"
    using tv by (simp_all add: same_but_out_def sent_fields)
  have ready1: "ready (market w1) stock_id options"
    using sent_ready [OF keeps ready, of D1] by (simp add: w1m)
  from ready1 obtain P1 where P1: "venue_positions (market w1) stock_id = Some P1"
    and ok1: "chain_ok (venue_positions (market w1)) options"
    by (auto elim: readyE)
  \<comment> \<open>the aggregation loop\<close>
  let ?G = "aggregate_gamma bs (venue_positions (market w1)) stock_id options tv (clock w)"
  from gamma_loop_ok [OF ok1 w1(4), of bs "real_of_int P1"] obtain w2 where
    g: "gamma_loop bs (venue_positions (market w1)) options (real_of_int P1) w1 = (Inr ?G, w2)"
    and s2: "same_but_out w1 w2"
    by (auto simp: aggregate_gamma_def w1 P1)
  let ?w2 = "w2\<lparr>out := out w2 @
      [(''- The current position in the stock {stock_id} is {stock_position}.'',
        [VStr stock_id, VInt P1])]\<rparr>"
  from s2 have s2': "same_but_out w1 ?w2" by (simp add: same_but_out_def)
  then have w2: "market ?w2 = market w1" "react ?w2 = react w" "clock ?w2 = clock w"
    "g_theoretical_value ?w2 = Some tv"
    by (simp_all add: same_but_out_def w1)
  \<comment> \<open>the order loop\<close>
  let ?GC = "gamma_calls_from (react w) bs ?G tv (clock w) stock_id (market w1) options"
  have ready2: "ready (market ?w2) stock_id options" using ready1 w2(1) by simp
  have nz2: "list_all (\<lambda>(option_id, option). BS_gamma_of bs tv (clock ?w2) option \<noteq> 0) options"
    using nz w2(3) by simp
  have keeps2: "keeps_ready (react ?w2) stock_id options" using keeps w2(2) by simp
  have o: "gamma_order_loop bs stock_id ?G options ?w2 = (Inr (), sent ?GC ?w2)"
    using gamma_order_loop_sent [OF w2(4) ready2 nz2 keeps2, of ?G] w2 by simp
  \<comment> \<open>the second delta hedge\<close>
  have keeps1: "keeps_ready (react w1) stock_id options" using keeps w1(1) by simp
  have ready3: "ready (market (sent ?GC w1)) stock_id options"
    by (rule sent_ready [OF keeps1 ready1])
  from hedge_delta_position_ready [OF ready3 ne, of bs sv] obtain D2 w3 where
    d2: "hedge_delta_position bs stock_id options sv (sent ?GC w1) = (Inr (), w3)"
    and s3: "same_but_out (sent D2 (sent ?GC w1)) w3"
    and any: "\<And>v. same_but_out (sent ?GC w1) v \<Longrightarrow>
                 \<exists>v'. hedge_delta_position bs stock_id options sv v = (Inr (), v')
                      \<and> same_but_out (sent D2 v) v'"
    by blast
  from any [OF same_but_out_sent [OF s2', of ?GC]] obtain w4 where
    d3: "hedge_delta_position bs stock_id options sv (sent ?GC ?w2) = (Inr (), w4)"
    and s4: "same_but_out (sent D2 (sent ?GC ?w2)) w4" by blast
  have "same_but_out (sent D2 (sent ?GC w1)) (sent D2 (sent ?GC ?w2))"
    by (intro same_but_out_sent s2')
  with s3 s4 have s34: "same_but_out w3 w4"
    by (meson same_but_out_sym same_but_out_trans)
  from s3 have c3: "calls w3 = calls w @ D1 @ ?GC @ D2"
    by (simp add: same_but_out_def sent_fields w1)
  from g have g': "gamma_loop bs (venue_positions (market w1)) options (real_of_int P1) w1
                     = (Inr ?G, w2)" .
  have run: "hedge_gamma_position bs stock_id options sv w = (Inr (), w4)"
    using P1
    by (simp add: hedge_gamma_position_def and_then_def d1 get_positions_def getitem_def ret_def
        g' py_print_def o d3)
  from run c3 s34 show ?thesis
    by (simp add: d1 d2 w1)
qed

lemma quiet_keeps_ready: "quiet_venue r stock_id \<Longrightarrow> keeps_ready r stock_id options"
  by (simp add: quiet_venue_def keeps_ready_def ready_def)

text \<open>
  What \<open>hedge_gamma_position\<close> sends, for every input. In a state where the delta
  hedge can run, with the global \<open>theoretical_value\<close> bound to \<open>tv\<close> and no option
  whose gamma at \<open>tv\<close> is zero, on a venue that keeps the market so, the call returns
  normally and its calls are, in order: the calls of the delta hedge; then, for every
  option of the chain in chain order, a limit order of side ask for that option at the best
  ask of the stock's book with the fractional volume G / gamma, where every gamma is
  evaluated at \<open>tv\<close>, the global theoretical value, and G is the stock position plus the
  sum of gamma times position over the positions read after the first hedge; then the
  calls of the delta hedge run again in the world these orders leave. The stock value the
  function is given reaches the two delta hedges only.
\<close>

lemma hedge_gamma_position_calls:
  assumes "ready (market w) stock_id options"
    and "options \<noteq> []"
    and "g_theoretical_value w = Some tv"
    and "list_all (\<lambda>(option_id, option). BS_gamma_of bs tv (clock w) option \<noteq> 0) options"
    and "keeps_ready (react w) stock_id options"
  shows "let w1 = snd (hedge_delta_position bs stock_id options sv w);
             delta_calls = drop (length (calls w)) (calls w1);
             G = aggregate_gamma bs (venue_positions (market w1)) stock_id options tv (clock w);
             gamma_calls = gamma_calls_from (react w) bs G tv (clock w) stock_id (market w1) options;
             w2 = sent gamma_calls w1;
             w3 = snd (hedge_delta_position bs stock_id options sv w2)
         in fst (hedge_gamma_position bs stock_id options sv w) = Inr ()
          \<and> calls (snd (hedge_gamma_position bs stock_id options sv w))
              = calls w @ delta_calls @ gamma_calls @ drop (length (calls w2)) (calls w3)
          \<and> (quiet_venue (react w) stock_id \<longrightarrow>
               calls (snd (hedge_gamma_position bs stock_id options sv w))
               = calls w @ delta_calls
                 @ map (\<lambda>(option_id, option).
                          InsertOrder option_id (Finite (best_ask (market w) stock_id))
                            (PyFloat (aggregate_gamma bs (venue_positions (market w)) stock_id
                                        options tv (clock w)
                                      / BS_gamma_of bs tv (clock w) option))
                            ''ask'' ''limit'') options
                 @ delta_calls)"
proof -
  let ?w1 = "snd (hedge_delta_position bs stock_id options sv w)"
  let ?G = "aggregate_gamma bs (venue_positions (market ?w1)) stock_id options tv (clock w)"
  let ?GC = "gamma_calls_from (react w) bs ?G tv (clock w) stock_id (market ?w1) options"
  let ?w3 = "snd (hedge_delta_position bs stock_id options sv (sent ?GC ?w1))"
  from hedge_gamma_position_runs [OF assms, of sv] obtain D1 D2 w' where
    run: "hedge_gamma_position bs stock_id options sv w = (Inr (), w')"
    and c1: "calls ?w1 = calls w @ D1"
    and c3: "calls ?w3 = calls w @ D1 @ ?GC @ D2"
    and same: "same_but_out ?w3 w'"
    by blast
  from same c3 have c: "calls w' = calls w @ D1 @ ?GC @ D2"
    by (simp add: same_but_out_def)
  have general: "fst (hedge_gamma_position bs stock_id options sv w) = Inr ()
      \<and> calls (snd (hedge_gamma_position bs stock_id options sv w))
          = calls w @ drop (length (calls w)) (calls ?w1) @ ?GC
            @ drop (length (calls (sent ?GC ?w1))) (calls ?w3)"
    by (simp add: run c c1 c3 sent_fields)
  have quiet: "calls (snd (hedge_gamma_position bs stock_id options sv w))
               = calls w @ drop (length (calls w)) (calls ?w1)
                 @ map (\<lambda>(option_id, option).
                          InsertOrder option_id (Finite (best_ask (market w) stock_id))
                            (PyFloat (aggregate_gamma bs (venue_positions (market w)) stock_id
                                        options tv (clock w)
                                      / BS_gamma_of bs tv (clock w) option))
                            ''ask'' ''limit'') options
                 @ drop (length (calls w)) (calls ?w1)"
    if q: "quiet_venue (react w) stock_id"
  proof -
    from assms(1) obtain P book b bs' a as' where
      P: "venue_positions (market w) stock_id = Some P"
      and ok: "chain_ok (venue_positions (market w)) options"
      and book: "venue_books (market w) stock_id = Some book"
      and bids: "bids book = b # bs'" and asks: "asks book = a # as'"
      by (rule readyE)
    from book asks have ask: "best_ask (market w) stock_id = level_price a"
      by (simp add: best_ask_def)
    from hedge_delta_position_ok [OF P assms(2) ok book bids asks, of bs sv] obtain v where
      "hedge_delta_position bs stock_id options sv w = (Inr (), v)"
      and "same_but_out
               (sent (delta_hedge_calls stock_id
                        (aggregate_delta bs (venue_positions (market w)) stock_id options sv (clock w))
                        P
                        (hedge_size bs (venue_positions (market w)) stock_id options sv (clock w))
                        (level_price b) (level_price a)) w) v"
      by blast
    then have d: "drop (length (calls w)) (calls ?w1)
      = delta_hedge_calls stock_id
          (aggregate_delta bs (venue_positions (market w)) stock_id options sv (clock w)) P
          (hedge_size bs (venue_positions (market w)) stock_id options sv (clock w))
          (level_price b) (level_price a)"
      by (simp add: same_but_out_def sent_fields)
    from hedge_gamma_position_ok [OF P assms(2) ok book bids asks assms(3,4) q, of sv]
    show ?thesis
      by (auto simp: d ask gamma_hedge_calls_def)
  qed
  from general quiet show ?thesis
    by (simp add: Let_def)
qed

lemma example_quiet: "quiet_venue (react (example_world P q)) stock_id"
  by (simp add: quiet_venue_def example_world_def)

lemma example_theoretical_value: "g_theoretical_value (example_world P q) = Some (105 / 2)"
  by (simp add: example_world_def)

lemma example_gamma: "BS_gamma_of example_bs S now option = S / 210"
  by (simp add: BS_gamma_of_def example_bs_def)

lemma example_gamma_nonzero:
  "list_all (\<lambda>(option_id, option). BS_gamma_of example_bs (105 / 2) now option \<noteq> 0) example_options"
  by (simp add: example_options_def example_gamma)

lemma example_delta_hedge_buys:
  "calls (snd (hedge_delta_position example_bs ''NVDA'' example_options sv (example_world 4 (-20))))
     = [InsertOrder ''NVDA'' (Finite 101) (PyInt 2) ''bid'' ''ioc'']"
proof -
  from hedge_delta_position_ok [OF example_position [of 4 "-20"] example_options_nonempty
          example_chain_ok [of 4 "-20"] example_stock_book [of 4 "-20"] example_bids example_asks,
          where bs = example_bs and sv = sv]
  have "calls (snd (hedge_delta_position example_bs ''NVDA'' example_options sv (example_world 4 (-20))))
       = calls (example_world 4 (-20)) @ [InsertOrder ''NVDA'' (Finite 101) (PyInt 2) ''bid'' ''ioc'']"
    by (auto simp: same_but_out_def sent_def delta_hedge_calls_def hedge_size_def
        example_aggregate_delta example_last_delta py_int_def example_position)
  then show ?thesis by (simp add: example_world_def)
qed

text \<open>
  C5: the script does not do what the specification says. Long 4 shares and short 20 calls
  of delta 3/5, the stock's book at 100 bid and 101 ask, so that the trade loop passes the
  stock value 100.5, and 52.5 left in the global \<open>theoretical_value\<close> by the requoting
  loop. The gamma of the option is 67/140 at the stock's value and 1/4 at 52.5.
  \<open>hedge_gamma_position\<close> buys 2 shares, offers -4 calls at 101 and buys 2 shares
  again: -4 is the aggregate 4 + 1/4 * (-20) = -1 over the gamma 1/4, both taken at the
  global theoretical value, the price of an option. With the gamma of the option at the
  value of the underlying, as the delta hedge takes its delta, the aggregate is
  4 + 67/140 * (-20) = -39/7 and the size -780/67.
\<close>

theorem hedge_gamma_position_gamma_argument:
  "fst (get_midpoint_value ''NVDA'' (example_world 4 (-20))) = Inr (Some (201 / 2))
   \<and> g_theoretical_value (example_world 4 (-20)) = Some (105 / 2)
   \<and> BS_gamma_of example_bs (201 / 2) (clock (example_world 4 (-20))) (snd (hd example_options)) = 67 / 140
   \<and> BS_gamma_of example_bs (105 / 2) (clock (example_world 4 (-20))) (snd (hd example_options)) = 1 / 4
   \<and> fst (hedge_gamma_position example_bs ''NVDA'' example_options (201 / 2) (example_world 4 (-20))) = Inr ()
   \<and> calls (snd (hedge_gamma_position example_bs ''NVDA'' example_options (201 / 2) (example_world 4 (-20))))
       = [InsertOrder ''NVDA'' (Finite 101) (PyInt 2) ''bid'' ''ioc'',
          InsertOrder ''NVDA_C'' (Finite 101) (PyFloat (- 4)) ''ask'' ''limit'',
          InsertOrder ''NVDA'' (Finite 101) (PyInt 2) ''bid'' ''ioc'']
   \<and> aggregate_gamma example_bs (venue_positions (market (example_world 4 (-20)))) ''NVDA''
        example_options (105 / 2) (clock (example_world 4 (-20))) = - 1
   \<and> gamma_hedge_calls example_bs
        (aggregate_gamma example_bs (venue_positions (market (example_world 4 (-20)))) ''NVDA''
           example_options (105 / 2) (clock (example_world 4 (-20))))
        (105 / 2) (clock (example_world 4 (-20))) 101 example_options
       = [InsertOrder ''NVDA_C'' (Finite 101) (PyFloat (- 4)) ''ask'' ''limit'']
   \<and> aggregate_gamma example_bs (venue_positions (market (example_world 4 (-20)))) ''NVDA''
        example_options (201 / 2) (clock (example_world 4 (-20))) = - 39 / 7
   \<and> gamma_hedge_calls example_bs
        (aggregate_gamma example_bs (venue_positions (market (example_world 4 (-20)))) ''NVDA''
           example_options (201 / 2) (clock (example_world 4 (-20))))
        (201 / 2) (clock (example_world 4 (-20))) 101 example_options
       = [InsertOrder ''NVDA_C'' (Finite 101) (PyFloat (- 780 / 67)) ''ask'' ''limit'']"
proof -
  have mid: "fst (get_midpoint_value ''NVDA'' (example_world 4 (-20))) = Inr (Some (201 / 2))"
    by (simp add: get_midpoint_value_eq example_world_def example_book_def)
  have r0: "ready (market (example_world 4 (-20))) ''NVDA'' example_options"
    by (simp add: ready_def example_world_def example_options_def chain_ok_def example_book_def)
  have q0: "quiet_venue (react (example_world 4 (-20))) ''NVDA''"
    by (rule example_quiet)
  note inst = hedge_gamma_position_calls [OF r0 example_options_nonempty
      example_theoretical_value [of 4 "-20"] example_gamma_nonzero
      quiet_keeps_ready [OF q0], where sv = "201 / 2", unfolded Let_def]
  have c: "calls (example_world 4 (-20)) = []"
    by (simp add: example_world_def)
  have q: "venue_positions (market (example_world 4 (-20))) ''NVDA_C'' = Some (-20)"
    "venue_positions (market (example_world 4 (-20))) ''NVDA'' = Some 4"
    by (simp_all add: example_world_def)
  have ask: "best_ask (market (example_world 4 (-20))) ''NVDA'' = 101"
    by (simp add: best_ask_def example_world_def example_book_def)
  have G: "aggregate_gamma example_bs (venue_positions (market (example_world 4 (-20)))) ''NVDA''
        example_options S now = 4 + S / 210 * (- 20)" for S now
    by (simp add: aggregate_gamma_def example_gamma q) (simp add: example_options_def q)
  have ok: "fst (hedge_gamma_position example_bs ''NVDA'' example_options (201 / 2) (example_world 4 (-20))) = Inr ()"
    using inst [THEN conjunct1] .
  have cs: "calls (snd (hedge_gamma_position example_bs ''NVDA'' example_options (201 / 2) (example_world 4 (-20))))
       = [InsertOrder ''NVDA'' (Finite 101) (PyInt 2) ''bid'' ''ioc'',
          InsertOrder ''NVDA_C'' (Finite 101) (PyFloat (- 4)) ''ask'' ''limit'',
          InsertOrder ''NVDA'' (Finite 101) (PyInt 2) ''bid'' ''ioc'']"
    using inst [THEN conjunct2, THEN conjunct2, THEN mp, OF q0]
    by (simp add: example_delta_hedge_buys c example_gamma ask G)
       (simp add: example_options_def)
  have sizes: "gamma_hedge_calls example_bs G' S now 101 example_options
       = [InsertOrder ''NVDA_C'' (Finite 101) (PyFloat (G' / (S / 210))) ''ask'' ''limit'']"
    for G' S now
    by (simp add: gamma_hedge_calls_def example_gamma example_options_def)
  from mid ok cs show ?thesis
    by (simp add: example_theoretical_value example_gamma G sizes)
qed

subsection \<open>The hedging phase of the trade loop and the vega stage\<close>

lemma only_prints_and_then:
  "only_prints m \<Longrightarrow> (\<And>x. only_prints (f x)) \<Longrightarrow> only_prints (and_then m f)"
  unfolding only_prints_def
proof
  fix w
  assume m: "\<forall>w. same_but_out w (snd (m w))" and f: "\<And>x. \<forall>w. same_but_out w (snd (f x w))"
  obtain r w' where mw: "m w = (r, w')" by (cases "m w")
  from m mw have 1: "same_but_out w w'" by (metis snd_conv)
  show "same_but_out w (snd (and_then m f w))"
  proof (cases r)
    case (Inl e)
    with mw 1 show ?thesis by (simp add: and_then_def)
  next
    case (Inr x)
    with mw have "and_then m f w = f x w'" by (simp add: and_then_def)
    with f [of x] 1 show ?thesis by (metis same_but_out_trans)
  qed
qed

lemma only_prints_basic:
  "only_prints (ret x)" "only_prints (raise e)" "only_prints (lift r)"
  "only_prints (py_print t vals)" "only_prints get_positions" "only_prints (getitem d k)"
  "only_prints datetime_now" "only_prints read_theoretical_value"
  "only_prints (loop_variable_option options)"
  by (simp_all add: only_prints_def same_but_out_def ret_def raise_def lift_def py_print_def
      get_positions_def getitem_def datetime_now_def read_theoretical_value_def
      loop_variable_option_def split: option.split)

lemma only_prints_time: "only_prints (calculate_current_time_to_date e)"
  by (simp add: only_prints_def current_time_to_date same_but_out_refl)

lemma only_prints_delta: "only_prints (calculate_option_delta bs e K kind S r sigma)"
  by (simp add: calculate_option_delta_def only_prints_and_then only_prints_time only_prints_basic)

lemma only_prints_vega_loop: "only_prints (vega_loop bs positions options T)"
proof (induction options arbitrary: T)
  case Nil
  show ?case by (simp add: only_prints_basic)
next
  case (Cons x options)
  obtain option_id option where x: "x = (option_id, option)" by (cases x)
  show ?case
    by (simp add: x Let_def only_prints_and_then only_prints_basic only_prints_time Cons)
qed

lemma only_prints_hedge_vega: "only_prints (hedge_vega_position bs stock_id options sv)"
  by (simp add: hedge_vega_position_def Let_def only_prints_and_then only_prints_basic
      only_prints_vega_loop only_prints_delta)

lemma keeps_silent_and_then:
  "keeps_silent m \<Longrightarrow> (\<And>x. keeps_silent (f x)) \<Longrightarrow> keeps_silent (and_then m f)"
  unfolding keeps_silent_def
proof (intro allI impI)
  fix w
  assume m: "\<forall>w. vega_silent w \<longrightarrow> vega_silent (snd (m w))"
    and f: "\<And>x. \<forall>w. vega_silent w \<longrightarrow> vega_silent (snd (f x w))"
    and w: "vega_silent w"
  obtain r w' where mw: "m w = (r, w')" by (cases "m w")
  from m w mw have 1: "vega_silent w'" by (metis snd_conv)
  show "vega_silent (snd (and_then m f w))"
  proof (cases r)
    case (Inl e)
    with mw 1 show ?thesis by (simp add: and_then_def)
  next
    case (Inr x)
    with mw have "and_then m f w = f x w'" by (simp add: and_then_def)
    with f [of x] 1 show ?thesis by simp
  qed
qed

lemma keeps_silent_print:
  "t \<noteq> ''- The current vega in option {option_id} is {BS_vega}.'' \<Longrightarrow> keeps_silent (py_print t vals)"
  by (simp add: keeps_silent_def vega_silent_def py_print_def)

lemma keeps_silent_basic:
  "keeps_silent (ret x)" "keeps_silent (raise e)" "keeps_silent (lift r)"
  "keeps_silent get_positions" "keeps_silent (getitem d k)"
  "keeps_silent datetime_now" "keeps_silent read_theoretical_value"
  "keeps_silent (write_theoretical_value v)"
  "keeps_silent (loop_variable_option options)"
  "keeps_silent (send c)" "keeps_silent (get_last_price_book i)"
  "keeps_silent (get_outstanding_orders i)" "keeps_silent (poll_new_trades i)"
  "keeps_silent (time_sleep secs)" "keeps_silent (book_bids ob)" "keeps_silent (book_asks ob)"
  "keeps_silent (first_price levels)"
  by (simp_all add: keeps_silent_def vega_silent_def ret_def raise_def lift_def
      get_positions_def getitem_def datetime_now_def read_theoretical_value_def
      write_theoretical_value_def loop_variable_option_def send_def get_last_price_book_def
      get_outstanding_orders_def poll_new_trades_def time_sleep_def book_bids_def book_asks_def
      first_price_def split: option.split list.split)

lemmas keeps_silent_rules = keeps_silent_and_then keeps_silent_print keeps_silent_basic

lemma keeps_silent_time: "keeps_silent (calculate_current_time_to_date e)"
  by (simp add: calculate_current_time_to_date_def keeps_silent_rules)

lemma keeps_silent_delta: "keeps_silent (calculate_option_delta bs e K kind S r sigma)"
  by (simp add: calculate_option_delta_def keeps_silent_rules keeps_silent_time)

lemma keeps_silent_value: "keeps_silent (calculate_theoretical_option_value bs e K kind S r sigma)"
  by (simp add: calculate_theoretical_option_value_def keeps_silent_rules keeps_silent_time)

lemma keeps_silent_midpoint: "keeps_silent (get_midpoint_value i)"
  by (simp add: get_midpoint_value_def keeps_silent_rules)

lemma keeps_silent_print_trades: "keeps_silent (print_trades option_id trades)"
  by (induction trades) (simp_all add: keeps_silent_rules)

lemma keeps_silent_delete_orders: "keeps_silent (delete_orders option_id orders)"
proof (induction orders)
  case Nil
  show ?case by (simp add: keeps_silent_rules)
next
  case (Cons x orders)
  obtain order_id order where x: "x = (order_id, order)" by (cases x)
  show ?case by (simp add: x keeps_silent_rules delete_order_def Cons)
qed

lemma keeps_silent_update_quotes:
  "keeps_silent (update_quotes option_id tp credit V L tick_size)"
  by (simp add: update_quotes_def pull_old_orders_def Let_def keeps_silent_rules
      keeps_silent_print_trades keeps_silent_delete_orders insert_order_def)

lemma keeps_silent_delta_loop: "keeps_silent (delta_loop bs positions sv options T)"
proof (induction options arbitrary: T)
  case Nil
  show ?case by (simp add: keeps_silent_rules)
next
  case (Cons x options)
  obtain option_id option where x: "x = (option_id, option)" by (cases x)
  show ?case by (simp add: x Let_def keeps_silent_rules keeps_silent_delta Cons)
qed

lemma keeps_silent_hedge_delta: "keeps_silent (hedge_delta_position bs stock_id options sv)"
  by (simp add: hedge_delta_position_def Let_def keeps_silent_rules keeps_silent_delta_loop
      keeps_silent_delta insert_order_def)

lemma keeps_silent_gamma_loop: "keeps_silent (gamma_loop bs positions options T)"
proof (induction options arbitrary: T)
  case Nil
  show ?case by (simp add: keeps_silent_rules)
next
  case (Cons x options)
  obtain option_id option where x: "x = (option_id, option)" by (cases x)
  show ?case by (simp add: x Let_def keeps_silent_rules keeps_silent_time Cons)
qed

lemma keeps_silent_gamma_order_loop: "keeps_silent (gamma_order_loop bs stock_id G options)"
proof (induction options)
  case Nil
  show ?case by (simp add: keeps_silent_rules)
next
  case (Cons x options)
  obtain option_id option where x: "x = (option_id, option)" by (cases x)
  show ?case by (simp add: x Let_def keeps_silent_rules keeps_silent_time insert_order_def Cons)
qed

lemma keeps_silent_hedge_gamma: "keeps_silent (hedge_gamma_position bs stock_id options sv)"
  by (simp add: hedge_gamma_position_def keeps_silent_rules keeps_silent_hedge_delta
      keeps_silent_gamma_loop keeps_silent_gamma_order_loop)

lemma keeps_silent_quote_loop: "keeps_silent (quote_loop bs sv options)"
proof (induction options)
  case Nil
  show ?case by (simp add: keeps_silent_rules)
next
  case (Cons x options)
  obtain option_id option where x: "x = (option_id, option)" by (cases x)
  show ?case
    by (simp add: x keeps_silent_rules keeps_silent_time keeps_silent_value
        keeps_silent_update_quotes Cons)
qed

lemma keeps_silent_iteration: "keeps_silent (trade_loop_iteration bs STOCK_ID options)"
  by (simp add: trade_loop_iteration_def keeps_silent_rules keeps_silent_midpoint
      keeps_silent_quote_loop keeps_silent_hedge_gamma)

lemma vega_silent_mono:
  "set (out w) \<subseteq> set (out w') \<Longrightarrow> \<not> vega_silent w \<Longrightarrow> \<not> vega_silent w'"
  by (auto simp: vega_silent_def list_all_iff)

lemma vega_loop_ok:
  "chain_ok positions options \<Longrightarrow> g_theoretical_value w = Some tv \<Longrightarrow>
   \<exists>w'. vega_loop bs positions options T w =
          (Inr (T + (\<Sum>(option_id, option) \<leftarrow> options.
                  BS_vega_of bs tv (clock w) option * real_of_int (the (positions option_id)))), w')
        \<and> same_but_out w w' \<and> set (out w) \<subseteq> set (out w')
        \<and> (options \<noteq> [] \<longrightarrow>
             (''- The current total aggregate vega position is {Total_aggregate_vega_position}.'',
              [VFloat (T + (\<Sum>(option_id, option) \<leftarrow> options.
                  BS_vega_of bs tv (clock w) option * real_of_int (the (positions option_id))))])
               \<in> set (out w')
             \<and> \<not> vega_silent w')"
proof (induction options arbitrary: T w)
  case Nil
  then show ?case by (simp add: ret_def same_but_out_refl)
next
  case (Cons x options)
  obtain option_id option where x: "x = (option_id, option)" by (cases x)
  from Cons.prems x obtain position where
    pos: "positions option_id = Some position"
    and rest: "chain_ok positions options"
    by (auto simp: chain_ok_def)
  let ?v = "BS_vega_of bs tv (clock w) option"
  let ?T = "T + ?v * real_of_int position"
  let ?w = "w\<lparr>out := out w @
      [(''- The current position in option {option_id} is {position}.'',
          [VStr option_id, VInt position]),
       (''- The current vega in option {option_id} is {BS_vega}.'',
          [VStr option_id, VFloat ?v]),
       (''- The current vega position in option {option_id} is {Vega_position}.'',
          [VStr option_id, VFloat (?v * real_of_int position)]),
       (''- The current total aggregate vega position is {Total_aggregate_vega_position}.'',
          [VFloat ?T])]\<rparr>"
  let ?S = "\<Sum>(option_id, option) \<leftarrow> options.
                  BS_vega_of bs tv (clock w) option * real_of_int (the (positions option_id))"
  have step: "vega_loop bs positions ((option_id, option) # options) T w
                = vega_loop bs positions options ?T ?w"
    using pos Cons.prems(2)
    by (simp add: and_then_def getitem_def ret_def py_print_def read_theoretical_value_def
        current_time_to_date Let_def BS_vega_of_def)
  have tv: "g_theoretical_value ?w = Some tv" using Cons.prems(2) by simp
  have loud: "\<not> vega_silent ?w" by (simp add: vega_silent_def)
  from Cons.IH [OF rest tv, of ?T] obtain w' where
    run: "vega_loop bs positions options ?T ?w = (Inr (?T + ?S), w')"
    and same: "same_but_out ?w w'"
    and sub: "set (out ?w) \<subseteq> set (out w')"
    and line: "options \<noteq> [] \<longrightarrow>
      (''- The current total aggregate vega position is {Total_aggregate_vega_position}.'',
       [VFloat (?T + ?S)]) \<in> set (out w')"
    by auto
  have total: "(''- The current total aggregate vega position is {Total_aggregate_vega_position}.'',
       [VFloat (?T + ?S)]) \<in> set (out w')"
  proof (cases "options = []")
    case True
    have "(''- The current total aggregate vega position is {Total_aggregate_vega_position}.'',
       [VFloat ?T]) \<in> set (out ?w)" by simp
    with sub True show ?thesis by auto
  next
    case False
    with line show ?thesis by simp
  qed
  from sub have sub': "set (out w) \<subseteq> set (out w')" by auto
  from vega_silent_mono [OF sub loud] have loud': "\<not> vega_silent w'" .
  have sum: "T + (\<Sum>(option_id, option) \<leftarrow> (option_id, option) # options.
                  BS_vega_of bs tv (clock w) option * real_of_int (the (positions option_id)))
             = ?T + ?S"
    using pos by simp
  from same have same': "same_but_out w w'" by (simp add: same_but_out_def)
  show ?case
    unfolding x step sum
    using run same' sub' total loud' by blast
qed

lemma hedge_vega_position_ok:
  assumes P: "venue_positions (market w) stock_id = Some P"
    and ne: "options \<noteq> []"
    and ok: "chain_ok (venue_positions (market w)) options"
    and tv: "g_theoretical_value w = Some tv"
  shows "fst (hedge_vega_position bs stock_id options sv w) = Inr ()
     \<and> (''- The current total aggregate vega position is {Total_aggregate_vega_position}.'',
         [VFloat (real_of_int P
                  + (\<Sum>(option_id, option) \<leftarrow> options.
                       BS_vega_of bs tv (clock w) option
                       * real_of_int (the (venue_positions (market w) option_id))))])
          \<in> set (out (snd (hedge_vega_position bs stock_id options sv w)))
     \<and> \<not> vega_silent (snd (hedge_vega_position bs stock_id options sv w))"
proof -
  let ?ps = "venue_positions (market w)"
  let ?total = "real_of_int P
                  + (\<Sum>(option_id, option) \<leftarrow> options.
                       BS_vega_of bs tv (clock w) option * real_of_int (the (?ps option_id)))"
  let ?line = "(''- The current total aggregate vega position is {Total_aggregate_vega_position}.'',
         [VFloat ?total])"
  from vega_loop_ok [OF ok tv, of bs "real_of_int P"] ne obtain w1 where
    loop: "vega_loop bs ?ps options (real_of_int P) w = (Inr ?total, w1)"
    and w1: "same_but_out w w1"
    and line: "?line \<in> set (out w1)"
    and loud: "\<not> vega_silent w1"
    by auto
  from ok ne have last_kind:
    "option_kind (snd (last options)) = CALL \<or> option_kind (snd (last options)) = PUT"
    by (auto simp: chain_ok_def list_all_iff dest!: last_in_set)
  note last_delta = option_delta_ok [OF last_kind]
  let ?w2 = "w1\<lparr>out := out w1 @
      [(''- The current position in the stock {stock_id} is {stock_position}.'',
        [VStr stock_id, VInt P])]\<rparr>"
  have run: "hedge_vega_position bs stock_id options sv w = (Inr (), ?w2)"
    using P ne
    by (simp add: hedge_vega_position_def and_then_def get_positions_def getitem_def ret_def
        loop py_print_def loop_variable_option_def last_delta Let_def)
  have "set (out w1) \<subseteq> set (out ?w2)" by auto
  from vega_silent_mono [OF this loud] line show ?thesis
    by (simp add: run)
qed

lemma trade_loop_iteration_hedging:
  assumes mid: "fst (get_midpoint_value STOCK_ID w) = Inr (Some sv)"
    and quoted: "fst (quote_loop bs sv options (banner_printed w)) = Inr ()"
  shows "trade_loop_iteration bs STOCK_ID options w =
           and_then (hedge_gamma_position bs STOCK_ID options sv) (\<lambda>_.
           and_then (py_print (CHR 0x0A # ''Sleeping for 4 seconds.'') []) (\<lambda>_.
           time_sleep 4))
             ((snd (quote_loop bs sv options (banner_printed w)))
                \<lparr>out := out (snd (quote_loop bs sv options (banner_printed w)))
                          @ [(CHR 0x0A # ''Hedging delta position'', [])]\<rparr>)"
proof -
  from mid have "get_midpoint_value STOCK_ID (banner_printed w) = (Inr (Some sv), banner_printed w)"
    by (simp add: get_midpoint_value_eq banner_printed_def)
  moreover from quoted obtain w1 where
    "quote_loop bs sv options (banner_printed w) = (Inr (), w1)"
    by (cases "quote_loop bs sv options (banner_printed w)") auto
  ultimately show ?thesis
    by (simp add: trade_loop_iteration_def and_then_def py_print_def datetime_now_def
        banner_printed_def)
qed

text \<open>
  C6, amended. A pass of the trade loop never runs the vega stage: it prints no line of
  that stage, whatever the world. When the midpoint is available and the requoting loop
  returns normally, the rest of the pass is \<open>hedge_gamma_position\<close> (which itself runs
  the delta hedge, the gamma orders and the delta hedge again) followed by the 4-second
  sleep, and nothing else. The vega stage, when it is run, never sends a call and leaves
  the venue's data unchanged, on every input; and on a non-empty chain of calls and puts
  with position entries and a bound theoretical value it returns normally, having printed
  its lines.
\<close>

theorem hedging_phase_and_vega_stage:
  "(vega_silent w \<longrightarrow> vega_silent (snd (trade_loop_iteration bs STOCK_ID options w)))
   \<and> (fst (get_midpoint_value STOCK_ID w) = Inr (Some sv)
        \<and> fst (quote_loop bs sv options (banner_printed w)) = Inr () \<longrightarrow>
        trade_loop_iteration bs STOCK_ID options w =
           and_then (hedge_gamma_position bs STOCK_ID options sv) (\<lambda>_.
           and_then (py_print (CHR 0x0A # ''Sleeping for 4 seconds.'') []) (\<lambda>_.
           time_sleep 4))
             ((snd (quote_loop bs sv options (banner_printed w)))
                \<lparr>out := out (snd (quote_loop bs sv options (banner_printed w)))
                          @ [(CHR 0x0A # ''Hedging delta position'', [])]\<rparr>))
   \<and> calls (snd (hedge_vega_position bs STOCK_ID options sv w)) = calls w
   \<and> market (snd (hedge_vega_position bs STOCK_ID options sv w)) = market w
   \<and> (venue_positions (market w) STOCK_ID = Some P \<and> options \<noteq> []
        \<and> chain_ok (venue_positions (market w)) options \<and> g_theoretical_value w = Some tv \<longrightarrow>
        fst (hedge_vega_position bs STOCK_ID options sv w) = Inr ()
        \<and> \<not> vega_silent (snd (hedge_vega_position bs STOCK_ID options sv w)))"
proof (intro conjI impI)
  assume "vega_silent w"
  with keeps_silent_iteration [of bs STOCK_ID options]
  show "vega_silent (snd (trade_loop_iteration bs STOCK_ID options w))"
    by (simp add: keeps_silent_def)
next
  assume "fst (get_midpoint_value STOCK_ID w) = Inr (Some sv)
        \<and> fst (quote_loop bs sv options (banner_printed w)) = Inr ()"
  then show "trade_loop_iteration bs STOCK_ID options w =
           and_then (hedge_gamma_position bs STOCK_ID options sv) (\<lambda>_.
           and_then (py_print (CHR 0x0A # ''Sleeping for 4 seconds.'') []) (\<lambda>_.
           time_sleep 4))
             ((snd (quote_loop bs sv options (banner_printed w)))
                \<lparr>out := out (snd (quote_loop bs sv options (banner_printed w)))
                          @ [(CHR 0x0A # ''Hedging delta position'', [])]\<rparr>)"
    using trade_loop_iteration_hedging by blast
next
  from only_prints_hedge_vega [of bs STOCK_ID options sv]
  have same: "same_but_out w (snd (hedge_vega_position bs STOCK_ID options sv w))"
    by (simp add: only_prints_def)
  from same show "calls (snd (hedge_vega_position bs STOCK_ID options sv w)) = calls w"
    by (simp add: same_but_out_def)
  from same show "market (snd (hedge_vega_position bs STOCK_ID options sv w)) = market w"
    by (simp add: same_but_out_def)
next
  assume h: "venue_positions (market w) STOCK_ID = Some P \<and> options \<noteq> []
        \<and> chain_ok (venue_positions (market w)) options \<and> g_theoretical_value w = Some tv"
  then have P: "venue_positions (market w) STOCK_ID = Some P" and ne: "options \<noteq> []"
    and ok: "chain_ok (venue_positions (market w)) options"
    and tv: "g_theoretical_value w = Some tv"
    by simp_all
  note v = hedge_vega_position_ok [OF P ne ok tv, of bs sv]
  from v show "fst (hedge_vega_position bs STOCK_ID options sv w) = Inr ()" by simp
  from v show "\<not> vega_silent (snd (hedge_vega_position bs STOCK_ID options sv w))" by simp
qed

lemma example_cycle:
  "fst (trade_loop_iteration example_bs ''NVDA'' example_options (example_world 4 (-20))) = Inr ()
   \<and> calls (snd (trade_loop_iteration example_bs ''NVDA'' example_options (example_world 4 (-20))))
      = [InsertOrder ''NVDA_C'' (Finite (3602879701896397 / 70368744177664)) (PyInt 5) ''bid'' ''limit'',
         InsertOrder ''NVDA_C'' (Finite (7571676873516647 / 140737488355328)) (PyInt 5) ''ask'' ''limit'',
         InsertOrder ''NVDA'' (Finite 101) (PyInt 2) ''bid'' ''ioc'',
         InsertOrder ''NVDA_C'' (Finite 101) (PyFloat (- 4)) ''ask'' ''limit'',
         InsertOrder ''NVDA'' (Finite 101) (PyInt 2) ''bid'' ''ioc'']"
  by (simp add: trade_loop_iteration_def and_then_def py_print_def datetime_now_def
      get_midpoint_value_eq example_world_def example_options_def example_bs_def example_book_def
      calculate_theoretical_option_value_def current_time_to_date ret_def raise_def
      write_theoretical_value_def update_quotes_def pull_old_orders_def poll_new_trades_def
      get_outstanding_orders_def lift_def example_sub example_add example_bid_price example_ask_price
      get_positions_def getitem_def insert_order_def send_def time_sleep_def
      hedge_gamma_position_def hedge_delta_position_def calculate_option_delta_def
      loop_variable_option_def get_last_price_book_def book_bids_def book_asks_def
      first_price_def read_theoretical_value_def py_int_def Let_def)

lemma example_silent: "vega_silent (example_world P q)"
  by (simp add: vega_silent_def example_world_def)

lemma example_quote_loop:
  "fst (quote_loop example_bs (201 / 2) example_options (banner_printed (example_world 4 (-20)))) = Inr ()"
  by (simp add: banner_printed_def and_then_def py_print_def
      example_world_def example_options_def example_bs_def example_book_def
      calculate_theoretical_option_value_def current_time_to_date ret_def raise_def
      write_theoretical_value_def update_quotes_def pull_old_orders_def poll_new_trades_def
      get_outstanding_orders_def lift_def example_sub example_add example_bid_price example_ask_price
      get_positions_def getitem_def insert_order_def send_def time_sleep_def Let_def)

lemma example_vega: "BS_vega_of example_bs S now option = S / 42"
  by (simp add: BS_vega_of_def example_bs_def)

text \<open>
  C6, as the specification states it, fails: this pass of the trade loop reaches the
  hedging phase and completes it (the delta, gamma and delta orders are sent after the two
  quotes), and the vega stage has not run, since none of its lines was printed, although
  on this very chain the vega stage prints one. And the vega stage, run by hand in the same
  world, does not log the aggregate of the specification: the total it logs is -21, the
  stock position 4 plus the call vega at the global theoretical value 52.5 times the
  position, 1.25 * (-20), while the sum of call\_vega(option) * position(option) over the
  chain is -335/7 with the vega at the stock's value 100.5 (and would be -25 at 52.5).
\<close>

theorem hedging_phase_and_vega_stage_counterexample:
  "fst (trade_loop_iteration example_bs ''NVDA'' example_options (example_world 4 (-20))) = Inr ()
   \<and> calls (snd (trade_loop_iteration example_bs ''NVDA'' example_options (example_world 4 (-20))))
      = [InsertOrder ''NVDA_C'' (Finite (3602879701896397 / 70368744177664)) (PyInt 5) ''bid'' ''limit'',
         InsertOrder ''NVDA_C'' (Finite (7571676873516647 / 140737488355328)) (PyInt 5) ''ask'' ''limit'',
         InsertOrder ''NVDA'' (Finite 101) (PyInt 2) ''bid'' ''ioc'',
         InsertOrder ''NVDA_C'' (Finite 101) (PyFloat (- 4)) ''ask'' ''limit'',
         InsertOrder ''NVDA'' (Finite 101) (PyInt 2) ''bid'' ''ioc'']
   \<and> vega_silent (snd (trade_loop_iteration example_bs ''NVDA'' example_options (example_world 4 (-20))))
   \<and> \<not> vega_silent (snd (hedge_vega_position example_bs ''NVDA'' example_options (201 / 2)
                            (example_world 4 (-20))))
   \<and> (''- The current total aggregate vega position is {Total_aggregate_vega_position}.'',
       [VFloat (- 21)])
        \<in> set (out (snd (hedge_vega_position example_bs ''NVDA'' example_options (201 / 2)
                           (example_world 4 (-20)))))
   \<and> aggregate_vega example_bs (venue_positions (market (example_world 4 (-20)))) example_options
        (201 / 2) (clock (example_world 4 (-20))) = - 335 / 7
   \<and> aggregate_vega example_bs (venue_positions (market (example_world 4 (-20)))) example_options
        (105 / 2) (clock (example_world 4 (-20))) = - 25"
proof -
  from keeps_silent_iteration [of example_bs "''NVDA''" example_options] example_silent [of 4 "-20"]
  have silent: "vega_silent (snd (trade_loop_iteration example_bs ''NVDA'' example_options (example_world 4 (-20))))"
    by (simp add: keeps_silent_def)
  have q: "venue_positions (market (example_world 4 (-20))) ''NVDA_C'' = Some (-20)"
    by (simp add: example_world_def)
  have sum: "real_of_int 4
       + (\<Sum>(option_id, option) \<leftarrow> example_options.
            BS_vega_of example_bs (105 / 2) (clock (example_world 4 (-20))) option
            * real_of_int (the (venue_positions (market (example_world 4 (-20))) option_id)))
       = - 21"
    by (simp add: example_options_def example_vega q)
  note v = hedge_vega_position_ok [OF example_position [of 4 "-20"] example_options_nonempty
      example_chain_ok [of 4 "-20"] example_theoretical_value [of 4 "-20"], of example_bs "201 / 2",
      unfolded sum]
  have agg: "aggregate_vega example_bs (venue_positions (market (example_world 4 (-20)))) example_options
        S now = S / 42 * (- 20)" for S now
    by (simp add: aggregate_vega_def example_options_def example_vega q)
  from silent v example_cycle show ?thesis
    by (simp add: agg)
qed

text \<open>
  The same pass, and the vega stage run by hand in the same world: it prints its lines and
  sends nothing.
\<close>

theorem hedging_phase_and_vega_stage_witness:
  "vega_silent (example_world 4 (-20))
   \<and> vega_silent (snd (trade_loop_iteration example_bs ''NVDA'' example_options (example_world 4 (-20))))
   \<and> fst (get_midpoint_value ''NVDA'' (example_world 4 (-20))) = Inr (Some (201 / 2))
   \<and> fst (quote_loop example_bs (201 / 2) example_options (banner_printed (example_world 4 (-20)))) = Inr ()
   \<and> trade_loop_iteration example_bs ''NVDA'' example_options (example_world 4 (-20)) =
           and_then (hedge_gamma_position example_bs ''NVDA'' example_options (201 / 2)) (\<lambda>_.
           and_then (py_print (CHR 0x0A # ''Sleeping for 4 seconds.'') []) (\<lambda>_.
           time_sleep 4))
             ((snd (quote_loop example_bs (201 / 2) example_options (banner_printed (example_world 4 (-20)))))
                \<lparr>out := out (snd (quote_loop example_bs (201 / 2) example_options
                                     (banner_printed (example_world 4 (-20)))))
                          @ [(CHR 0x0A # ''Hedging delta position'', [])]\<rparr>)
   \<and> calls (snd (hedge_vega_position example_bs ''NVDA'' example_options (201 / 2) (example_world 4 (-20)))) = []
   \<and> market (snd (hedge_vega_position example_bs ''NVDA'' example_options (201 / 2) (example_world 4 (-20))))
       = market (example_world 4 (-20))
   \<and> fst (hedge_vega_position example_bs ''NVDA'' example_options (201 / 2) (example_world 4 (-20))) = Inr ()
   \<and> \<not> vega_silent (snd (hedge_vega_position example_bs ''NVDA'' example_options (201 / 2)
                            (example_world 4 (-20))))"
proof -
  note inst = hedging_phase_and_vega_stage [where w = "example_world 4 (-20)" and bs = example_bs
      and STOCK_ID = "''NVDA''" and options = example_options and sv = "201 / 2" and P = 4
      and tv = "105 / 2"]
  have mid: "fst (get_midpoint_value ''NVDA'' (example_world 4 (-20))) = Inr (Some (201 / 2))"
    by (simp add: get_midpoint_value_eq example_world_def example_book_def)
  have hyp: "venue_positions (market (example_world 4 (-20))) ''NVDA'' = Some 4
        \<and> example_options \<noteq> []
        \<and> chain_ok (venue_positions (market (example_world 4 (-20)))) example_options
        \<and> g_theoretical_value (example_world 4 (-20)) = Some (105 / 2)"
    by (simp add: example_position example_options_nonempty example_chain_ok
        example_theoretical_value)
  have c: "calls (example_world 4 (-20)) = []" by (simp add: example_world_def)
  note a = inst [THEN conjunct1, THEN mp, OF example_silent]
  note b = inst [THEN conjunct2, THEN conjunct1, THEN mp, OF conjI [OF mid example_quote_loop]]
  note d = inst [THEN conjunct2, THEN conjunct2, THEN conjunct1]
  note d' = inst [THEN conjunct2, THEN conjunct2, THEN conjunct2, THEN conjunct1]
  note e = inst [THEN conjunct2, THEN conjunct2, THEN conjunct2, THEN conjunct2, THEN mp, OF hyp]
  from example_silent [of 4 "-20"] a mid example_quote_loop b d d' e c show ?thesis
    by simp
qed

end
